theory Spec2Isabelle
  imports Main
begin

section \<open>Data model of goal events\<close>

text \<open>
  The goal lifecycle states of \<open>SdmGoalState\<close>. The sources compare a state with the
  string literals \<open>"failure"\<close> and \<open>"success"\<close>, so a state is its own name.
\<close>

datatype SdmGoalState =
    planned | requested | waiting_for_pre_approval | pre_approved
  | waiting_for_approval | approved | in_process
  | success | failure | skipped | stopped | canceled

text \<open>
  \<open>SdmGoalFulfillmentMethod\<close>. The \<open>default\<close> branch of the switch in
  \<open>expectToBeFulfilledAfterRequest\<close> is for values outside the enumeration, which the
  type excludes.
\<close>

datatype SdmGoalFulfillmentMethod = Sdm | SideEffect | Other

text \<open>
  A thrown JavaScript error with its message; a rejected promise is \<open>Inl\<close> of it.
\<close>

datatype error = Error string | TypeError string

record SdmGoalKey =
  key_environment :: string
  key_uniqueName :: string
  key_name :: string

record SdmGoalFulfillment =
  fulfillment_method :: SdmGoalFulfillmentMethod
  fulfillment_name :: string
  fulfillment_registration :: string

record SdmRepo =
  repo_owner :: string
  repo_name :: string
  repo_providerId :: string

record SdmExternalUrl =
  ext_label :: "string option"
  ext_url :: string

record SdmProvenance =
  prov_registration :: "string option"
  prov_version :: "string option"
  prov_name :: "string option"
  prov_userId :: "string option"
  prov_channelId :: "string option"
  prov_ts :: int

text \<open>
  \<open>SdmGoalEvent\<close> (and \<open>SdmGoalMessage\<close>, which has the same fields as far as the
  sources read them). Optional fields are options; a list field that the sources read
  through \<open>|| []\<close> is a list, the absent list being the empty one. Number fields hold
  integers (timestamps and version counters).
\<close>

record SdmGoalEvent =
  uniqueName :: string
  environment :: string
  name :: string
  goalSet :: string
  goalSetId :: string
  state :: SdmGoalState
  ts :: int
  version :: int
  repo :: SdmRepo
  push_repo :: SdmRepo
  sha :: string
  branch :: string
  fulfillment :: SdmGoalFulfillment
  preConditions :: "SdmGoalKey list"
  description :: "string option"
  data :: "string option"
  url :: "string option"
  externalUrls :: "SdmExternalUrl list"
  provenance :: "SdmProvenance list"
  retryFeasible :: "bool option"
  approvalRequired :: "bool option"
  approval :: "SdmProvenance option"
  preApprovalRequired :: "bool option"
  preApproval :: "SdmProvenance option"
  parameters :: "string option"
  signature :: "string option"

text \<open>The parameters of \<open>updateGoal\<close>, the mutation that writes a goal-state change.\<close>

record UpdateSdmGoalParams =
  upd_state :: SdmGoalState
  upd_description :: string
  upd_url :: "string option"
  upd_externalUrls :: "SdmExternalUrl list"
  upd_data :: "string option"
  upd_phase :: "string option"

text \<open>The external status written by \<open>createStatus\<close>.\<close>

record Status =
  status_context :: string
  status_description :: string
  status_target_url :: "string option"
  status_state :: string

record SdmGoalSet =
  gs_goalSet :: string
  gs_goalSetId :: string
  gs_state :: SdmGoalState
  gs_repo :: SdmRepo
  gs_sha :: string
  gs_branch :: string

text \<open>
  What a handler does to the outside world, in the order it does it: a goal update
  (\<open>updateGoal\<close> with the goal and the parameters it is given), the calls on the progress
  log, a status (\<open>createStatus\<close>), a goal-set event sent and the text of a response. The
  handlers are sequences of awaited calls; each function below returns its result
  together with the effects it performed.
\<close>

datatype effect =
    UpdateGoal SdmGoalEvent UpdateSdmGoalParams
  | ProgressWrite string
  | ProgressFlush
  | ProgressClose
  | CreateStatus Status
  | SendGoalSet SdmGoalSet
  | Respond string

definition params :: "SdmGoalState \<Rightarrow> string \<Rightarrow> UpdateSdmGoalParams" where
  "params s d = \<lparr> upd_state = s, upd_description = d, upd_url = None,
     upd_externalUrls = [], upd_data = None, upd_phase = None \<rparr>"

section \<open>Goal signing\<close>

subsection \<open>Rendering of values in template literals\<close>

definition digit_char :: "nat \<Rightarrow> char" where
  "digit_char d = char_of (48 + d)"

function show_nat :: "nat \<Rightarrow> string" where
  "show_nat n = (if n < 10 then [digit_char n] else show_nat (n div 10) @ [digit_char (n mod 10)])"
  by pat_completeness auto
termination
  by (relation "measure id") auto

declare show_nat.simps [simp del]

text \<open>The decimal notation of an integer, as \<open>${n}\<close> gives it below \<open>10^21\<close>.\<close>

definition show_int :: "int \<Rightarrow> string" where
  "show_int i = (if i < 0 then CHR ''-'' # show_nat (nat (- i)) else show_nat (nat i))"

text \<open>A state is rendered by its name.\<close>

fun state_str :: "SdmGoalState \<Rightarrow> string" where
  "state_str planned = ''planned''"
| "state_str requested = ''requested''"
| "state_str waiting_for_pre_approval = ''waiting_for_pre_approval''"
| "state_str pre_approved = ''pre_approved''"
| "state_str waiting_for_approval = ''waiting_for_approval''"
| "state_str approved = ''approved''"
| "state_str in_process = ''in_process''"
| "state_str success = ''success''"
| "state_str failure = ''failure''"
| "state_str skipped = ''skipped''"
| "state_str stopped = ''stopped''"
| "state_str canceled = ''canceled''"

text \<open>
  Modelled from the spec: the string values of \<open>SdmGoalFulfillmentMethod\<close> are declared
  outside the sources; the spec names the methods \<open>Sdm\<close>, \<open>SideEffect\<close> and \<open>Other\<close>.
\<close>

fun method_str :: "SdmGoalFulfillmentMethod \<Rightarrow> string" where
  "method_str Sdm = ''Sdm''"
| "method_str SideEffect = ''SideEffect''"
| "method_str Other = ''Other''"

text \<open>\<open>Array.prototype.join(",")\<close>, which is also how a template literal renders an array.\<close>

fun join_comma :: "string list \<Rightarrow> string" where
  "join_comma [] = []"
| "join_comma [x] = x"
| "join_comma (x # y # ys) = x @ '','' @ join_comma (y # ys)"

text \<open>
  \<open>normalizeValue\<close>: a falsy value (absent, the empty string, \<open>false\<close>) is rendered
  \<open>undefined\<close>, any other value by \<open>toString\<close>.
\<close>

definition normalizeValue :: "string option \<Rightarrow> string" where
  "normalizeValue v = (case v of None \<Rightarrow> ''undefined''
     | Some s \<Rightarrow> if s = [] then ''undefined'' else s)"

definition normalizeValue_bool :: "bool option \<Rightarrow> string" where
  "normalizeValue_bool v = (case v of Some True \<Rightarrow> ''true'' | _ \<Rightarrow> ''undefined'')"

definition normalizeProvenance :: "SdmProvenance option \<Rightarrow> string" where
  "normalizeProvenance po = (case po of
       Some p \<Rightarrow> normalizeValue (prov_registration p) @ '':'' @ normalizeValue (prov_version p)
         @ ''/'' @ normalizeValue (prov_name p) @ ''-'' @ normalizeValue (prov_userId p)
         @ ''-'' @ normalizeValue (prov_channelId p) @ ''-'' @ show_int (prov_ts p)
     | None \<Rightarrow> ''undefined'')"

text \<open>
  The template literal of \<open>normalizeGoal\<close> continues each line in the source file after
  eight spaces of indentation, so the lines are separated by a newline and eight spaces.
\<close>

definition nl :: string where
  "nl = CHR 0x0A # ''        ''"

definition normalizeGoal :: "SdmGoalEvent \<Rightarrow> string" where
  "normalizeGoal goal =
     ''uniqueName:'' @ uniqueName goal @ nl @
     ''environment:'' @ environment goal @ nl @
     ''goalSetId:'' @ goalSetId goal @ nl @
     ''state:'' @ state_str (state goal) @ nl @
     ''ts:'' @ show_int (ts goal) @ nl @
     ''version:'' @ show_int (version goal) @ nl @
     ''repo:'' @ (repo_owner (repo goal) @ ''/'' @ repo_name (repo goal) @ ''/''
        @ repo_providerId (repo goal)) @ nl @
     ''sha:'' @ sha goal @ nl @
     ''branch:'' @ branch goal @ nl @
     ''fulfillment:'' @ (fulfillment_name (fulfillment goal) @ ''-''
        @ method_str (fulfillment_method (fulfillment goal))) @ nl @
     ''preConditions:'' @ join_comma (map (\<lambda>p. key_environment p @ ''/'' @ key_uniqueName p)
        (preConditions goal)) @ nl @
     ''data:'' @ normalizeValue (data goal) @ nl @
     ''url:'' @ normalizeValue (url goal) @ nl @
     ''externalUrls:'' @ join_comma (map ext_url (externalUrls goal)) @ nl @
     ''provenance:'' @ join_comma (map (\<lambda>p. normalizeProvenance (Some p)) (provenance goal)) @ nl @
     ''retry:'' @ normalizeValue_bool (retryFeasible goal) @ nl @
     ''approvalRequired:'' @ normalizeValue_bool (approvalRequired goal) @ nl @
     ''approval:'' @ normalizeProvenance (approval goal) @ nl @
     ''preApprovalRequired:'' @ normalizeValue_bool (preApprovalRequired goal) @ nl @
     ''preApproval:'' @ normalizeProvenance (preApproval goal)"

subsection \<open>Signing and verification\<close>

text \<open>
  The RSA-SHA512 primitives of the \<open>crypto\<close> library, which the sources call and do not
  define: \<open>rsa_sign privateKey passphrase message\<close> is the base64 signature and
  \<open>rsa_verify publicKey message signature\<close> the verdict.
\<close>

record crypto =
  rsa_sign :: "string \<Rightarrow> string option \<Rightarrow> string \<Rightarrow> string"
  rsa_verify :: "string \<Rightarrow> string \<Rightarrow> string \<Rightarrow> bool"

record GoalVerificationKey =
  vk_name :: string
  vk_publicKey :: string

record GoalSigningKey =
  sk_name :: string
  sk_publicKey :: string
  sk_privateKey :: string
  sk_passphrase :: "string option"

record GoalSigningConfiguration =
  gsc_enabled :: bool
  gsc_signingKey :: "GoalSigningKey option"
  gsc_verificationKeys :: "GoalVerificationKey list"

definition rejectGoal :: "string \<Rightarrow> SdmGoalEvent \<Rightarrow> effect list" where
  "rejectGoal reason sdmGoal =
     [UpdateGoal sdmGoal (params failure (''Rejected '' @ name sdmGoal @ '' because '' @ reason))]"

definition isGoalRejected :: "SdmGoalEvent \<Rightarrow> bool" where
  "isGoalRejected sdmGoal \<longleftrightarrow>
     state sdmGoal = failure \<and> description sdmGoal = Some (''Rejected: '' @ name sdmGoal)"

text \<open>
  \<open>verifyGoal\<close> resolves (\<open>Inr ()\<close>) or rejects the goal and throws. An absent signing
  configuration is \<open>None\<close>; an empty signature is falsy, as an absent one.
\<close>

definition verifyGoal ::
  "crypto \<Rightarrow> SdmGoalEvent \<Rightarrow> GoalSigningConfiguration option \<Rightarrow> (error + unit) \<times> effect list" where
  "verifyGoal c goal gsc = (case gsc of
       None \<Rightarrow> (Inr (), [])
     | Some cfg \<Rightarrow>
         if gsc_enabled cfg \<and> \<not> isGoalRejected goal then
           (if signature goal \<noteq> None \<and> signature goal \<noteq> Some [] then
              (case find (\<lambda>vk. rsa_verify c (vk_publicKey vk) (normalizeGoal goal) (the (signature goal)))
                      (gsc_verificationKeys cfg) of
                 Some verifiedWith \<Rightarrow> (Inr (), [])
               | None \<Rightarrow> (Inl (Error ''SDM goal signature invalid. Rejecting goal!''),
                           rejectGoal ''signature was invalid'' goal))
            else (Inl (Error ''SDM goal signature is missing. Rejecting goal!''),
                  rejectGoal ''signature was missing'' goal))
         else (Inr (), []))"

text \<open>\<open>signGoal\<close> returns the signed goal, or nothing when signing is off or has no key.\<close>

definition signGoal :: "crypto \<Rightarrow> SdmGoalEvent \<Rightarrow> GoalSigningConfiguration option \<Rightarrow> SdmGoalEvent option" where
  "signGoal c goal gsc = (case gsc of
       None \<Rightarrow> None
     | Some cfg \<Rightarrow>
         (case gsc_signingKey cfg of
            Some k \<Rightarrow>
              if gsc_enabled cfg then
                Some (goal\<lparr> signature :=
                  Some (rsa_sign c (sk_privateKey k) (sk_passphrase k) (normalizeGoal goal)) \<rparr>)
              else None
          | None \<Rightarrow> None))"


section \<open>Requesting downstream goals on goal success\<close>

text \<open>A goal event is also a goal key (\<open>SdmGoalEvent\<close> extends \<open>SdmGoalKey\<close>).\<close>

definition goalKey :: "SdmGoalEvent \<Rightarrow> SdmGoalKey" where
  "goalKey g = \<lparr> key_environment = environment g, key_uniqueName = uniqueName g, key_name = name g \<rparr>"

text \<open>
  Modelled from the spec: \<open>mapKeyToGoal\<close> is imported from \<open>@atomist/sdm\<close> and is not among
  the sources; the spec matches a key by \<open>(environment, uniqueName)\<close>. The first
  argument reads the key of an element, since the function is generic in the element.
\<close>

definition mapKeyToGoal :: "('a \<Rightarrow> SdmGoalKey) \<Rightarrow> 'a list \<Rightarrow> SdmGoalKey \<Rightarrow> 'a option" where
  "mapKeyToGoal key goals keyToFind =
     find (\<lambda>g. key_environment (key g) = key_environment keyToFind \<and>
               key_uniqueName (key g) = key_uniqueName keyToFind) goals"

text \<open>
  Modelled from the spec: \<open>preconditionsAreMet\<close> is imported from \<open>@atomist/sdm\<close> and is
  not among the sources; by the spec a goal is a candidate iff every precondition is
  matched by a goal in state \<open>success\<close> in the same set, by \<open>(environment, uniqueName)\<close>.
\<close>

definition preconditionsAreMet :: "SdmGoalEvent \<Rightarrow> SdmGoalEvent list \<Rightarrow> bool" where
  "preconditionsAreMet goal goalsForCommit =
     list_all (\<lambda>p. list_ex (\<lambda>h. environment h = key_environment p \<and>
                                uniqueName h = key_uniqueName p \<and> state h = success)
                       goalsForCommit)
       (preConditions goal)"

definition shouldBePlannedOrSkipped :: "SdmGoalEvent \<Rightarrow> bool" where
  "shouldBePlannedOrSkipped dependentGoal =
     (if state dependentGoal = planned then True
      else if state dependentGoal = skipped then True
      else if state dependentGoal = failure \<and> retryFeasible dependentGoal = Some True then True
      else False)"

definition expectToBeFulfilledAfterRequest :: "SdmGoalEvent \<Rightarrow> string \<Rightarrow> bool" where
  "expectToBeFulfilledAfterRequest dependentGoal nm =
     (case fulfillment_method (fulfillment dependentGoal) of
        Sdm \<Rightarrow> True
      | SideEffect \<Rightarrow> fulfillment_name (fulfillment dependentGoal) \<noteq> nm
      | Other \<Rightarrow> True)"

definition isDirectlyDependentOn :: "SdmGoalKey \<Rightarrow> SdmGoalEvent \<Rightarrow> bool" where
  "isDirectlyDependentOn successfulGoal goal =
     (if preConditions goal = [] then False
      else if mapKeyToGoal id (preConditions goal) successfulGoal \<noteq> None then True
      else False)"

text \<open>The goal template, as far as its descriptions are read.\<close>

record Goal =
  goal_waitingForPreApprovalDescription :: string
  goal_requestedDescription :: string

text \<open>
  The \<open>GoalImplementationMapper\<close>, an object of \<open>@atomist/sdm\<close>. A fulfillment callback
  takes a goal event to the enriched goal event.
\<close>

record GoalImplementationMapper =
  findGoalBySdmGoal :: "SdmGoalEvent \<Rightarrow> Goal option"
  findFulfillmentCallbackForGoal :: "SdmGoalEvent \<Rightarrow> (SdmGoalEvent \<Rightarrow> SdmGoalEvent) list"
  findImplementationBySdmGoal :: "SdmGoalEvent \<Rightarrow> Goal"

record ExecuteGoalResult =
  egr_code :: "int option"
  egr_message :: "string option"
  egr_state :: "SdmGoalState option"
  egr_phase :: "string option"
  egr_description :: "string option"
  egr_externalUrls :: "SdmExternalUrl list"

text \<open>
  A \<open>HandlerResult\<close>: \<open>{...result, code: 0}\<close> is the result's fields under code 0, and
  \<open>Success\<close> is \<open>{code: 0}\<close>.
\<close>

record HandlerResult =
  hr_code :: int
  hr_result :: "ExecuteGoalResult option"

definition Success :: HandlerResult where
  "Success = \<lparr> hr_code = 0, hr_result = None \<rparr>"

text \<open>
  The body of the function mapped over \<open>goalsToRequest\<close> in \<open>handle\<close>: the update written
  for one goal that is ready.
\<close>

definition requestGoal :: "GoalImplementationMapper \<Rightarrow> SdmGoalEvent \<Rightarrow> effect" where
  "requestGoal im sdmG =
     (let goal = findGoalBySdmGoal im sdmG in
      if preApprovalRequired sdmG = Some True then
        UpdateGoal sdmG (params waiting_for_pre_approval
          (case goal of Some gl \<Rightarrow> goal_waitingForPreApprovalDescription gl
                      | None \<Rightarrow> ''Start required: '' @ name sdmG))
      else
        (let g = fold (\<lambda>cb g. cb g) (findFulfillmentCallbackForGoal im sdmG) sdmG in
         UpdateGoal g ((params requested
           (case goal of Some gl \<Rightarrow> goal_requestedDescription gl
                       | None \<Rightarrow> ''Ready: '' @ name g)) \<lparr> upd_data := data g \<rparr>)))"

definition goalsToRequest :: "string \<Rightarrow> SdmGoalEvent \<Rightarrow> SdmGoalEvent list \<Rightarrow> SdmGoalEvent list" where
  "goalsToRequest nm sdmGoal goals =
     filter (\<lambda>g. preconditionsAreMet g goals)
       (filter shouldBePlannedOrSkipped
         (filter (\<lambda>g. expectToBeFulfilledAfterRequest g nm)
           (filter (\<lambda>g. isDirectlyDependentOn (goalKey sdmGoal) g) goals)))"

text \<open>
  The handler object and the functions it calls that are not among the sources:
  \<open>isGoalRelevant\<close> (of \<open>validateGoal\<close>), \<open>fetchGoalsFromPush\<close> and the crypto library.
\<close>

record RequestDownstreamGoalsOnGoalSuccess =
  rd_name :: string
  rd_implementationMapper :: GoalImplementationMapper
  rd_goalSigning :: "GoalSigningConfiguration option"
  rd_isGoalRelevant :: "SdmGoalEvent \<Rightarrow> bool"
  rd_fetchGoalsFromPush :: "SdmGoalEvent \<Rightarrow> SdmGoalEvent list"
  rd_crypto :: crypto

text \<open>
  \<open>RequestDownstreamGoalsOnGoalSuccess.handle\<close>. The updates of \<open>Promise.all\<close> are listed in
  the order of \<open>goalsToRequest\<close>. Resolving the repository reference, the credentials
  and the preference store writes nothing and is left out; the callbacks are taken to
  resolve.
\<close>

definition handle_success ::
  "RequestDownstreamGoalsOnGoalSuccess \<Rightarrow> SdmGoalEvent \<Rightarrow> (error + HandlerResult) \<times> effect list" where
  "handle_success h sdmGoal =
     (if \<not> rd_isGoalRelevant h sdmGoal then (Inr Success, [])
      else
        (case verifyGoal (rd_crypto h) sdmGoal (rd_goalSigning h) of
           (Inl e, effs) \<Rightarrow> (Inl e, effs)
         | (Inr u, effs) \<Rightarrow>
             (let goals = rd_fetchGoalsFromPush h sdmGoal in
              (Inr Success,
               effs @ map (requestGoal (rd_implementationMapper h))
                        (goalsToRequest (rd_name h) sdmGoal goals)))))"


section \<open>Fulfilling a requested goal\<close>

record GoalInvocation =
  gi_sdmGoal :: SdmGoalEvent
  gi_goal :: Goal
  gi_progressLog_url :: "string option"
  gi_parameters :: string

text \<open>
  A \<open>GoalScheduler\<close>; \<open>schedule\<close> resolves to a result, which may be absent, or throws,
  and may have effects of its own.
\<close>

record GoalScheduler =
  supports :: "GoalInvocation \<Rightarrow> bool"
  schedule :: "GoalInvocation \<Rightarrow> (error + ExecuteGoalResult option) \<times> effect list"

text \<open>\<open>configuration.sdm.goalScheduler\<close>: absent, one scheduler, or an array of them.\<close>

datatype GoalSchedulerSetting =
    NoGoalScheduler
  | OneGoalScheduler GoalScheduler
  | GoalSchedulers "GoalScheduler list"

record SoftwareDeliveryMachineConfiguration =
  cfg_name :: string
  cfg_goalSigning :: "GoalSigningConfiguration option"
  cfg_goalScheduler :: GoalSchedulerSetting

definition findGoalScheduler ::
  "GoalInvocation \<Rightarrow> SoftwareDeliveryMachineConfiguration \<Rightarrow> GoalScheduler option" where
  "findGoalScheduler gi configuration =
     (case cfg_goalScheduler configuration of
        NoGoalScheduler \<Rightarrow> None
      | OneGoalScheduler gs \<Rightarrow> find (\<lambda>gl. supports gl gi) [gs]
      | GoalSchedulers gss \<Rightarrow> find (\<lambda>gl. supports gl gi) gss)"

text \<open>
  What \<open>handle\<close> calls that is not among the sources: \<open>shouldFulfill\<close> (of
  \<open>validateGoal\<close>), the cancellation checks, the log factory (through the URL of the log
  it makes), \<open>descriptionFromState\<close>, \<open>JSON.parse\<close>, \<open>executeGoal\<close> (which resolves to a
  result, possibly absent, or throws, and has effects of its own), \<open>serializeResult\<close>,
  the clock, the host and the client's name and version.
\<close>

record FulfillEnv =
  shouldFulfill :: "SdmGoalEvent \<Rightarrow> bool"
  cancelableGoal :: "SdmGoalEvent \<Rightarrow> bool"
  isGoalCanceled :: "SdmGoalEvent \<Rightarrow> bool"
  logFactory_url :: "SdmGoalEvent \<Rightarrow> string option"
  descriptionFromState :: "Goal \<Rightarrow> SdmGoalState \<Rightarrow> SdmGoalEvent \<Rightarrow> string"
  JSON_parse :: "string \<Rightarrow> error + string"
  executeGoal :: "GoalInvocation \<Rightarrow> (error + ExecuteGoalResult option) \<times> effect list"
  serializeResult :: "ExecuteGoalResult option \<Rightarrow> string"
  start_date :: string
  finish_date :: string
  duration :: string
  hostname :: string
  client_name :: string
  client_version :: string
  fe_crypto :: crypto

definition reportStart :: "FulfillEnv \<Rightarrow> SdmGoalEvent \<Rightarrow> effect list" where
  "reportStart env sdmGoal =
     [ProgressWrite ''/--'',
      ProgressWrite (''Start: '' @ start_date env),
      ProgressWrite (''Repository: '' @ repo_owner (push_repo sdmGoal) @ ''/''
        @ repo_name (push_repo sdmGoal) @ ''/'' @ branch sdmGoal),
      ProgressWrite (''Sha: '' @ sha sdmGoal),
      ProgressWrite (''Goal: '' @ name sdmGoal @ '' ('' @ uniqueName sdmGoal @ '')''),
      ProgressWrite (''Environment: '' @ drop 2 (environment sdmGoal)),
      ProgressWrite (''GoalSet: '' @ goalSet sdmGoal @ '' - '' @ goalSetId sdmGoal),
      ProgressWrite (''Host: '' @ hostname env),
      ProgressWrite (''SDM: '' @ client_name env @ '':'' @ client_version env),
      ProgressWrite (CHR 0x5C # ''--''),
      ProgressFlush]"

definition reportEndAndClose :: "FulfillEnv \<Rightarrow> ExecuteGoalResult option \<Rightarrow> effect list" where
  "reportEndAndClose env result =
     [ProgressWrite ''/--'',
      ProgressWrite (''Result: '' @ serializeResult env result),
      ProgressWrite (''Duration: '' @ duration env),
      ProgressWrite (''Finish: '' @ finish_date env),
      ProgressWrite (CHR 0x5C # ''--''),
      ProgressClose]"

definition terminatingStates :: "SdmGoalState list" where
  "terminatingStates = [canceled, failure, skipped, stopped, success, waiting_for_approval]"

text \<open>A string is truthy when it is present and not empty.\<close>

definition truthy :: "string option \<Rightarrow> bool" where
  "truthy v \<longleftrightarrow> v \<noteq> None \<and> v \<noteq> Some []"

text \<open>The catch clause of \<open>handle\<close> rewrites the message of the error it rethrows.\<close>

fun error_message :: "error \<Rightarrow> string" where
  "error_message (Error m) = m"
| "error_message (TypeError m) = m"

fun set_message :: "error \<Rightarrow> string \<Rightarrow> error" where
  "set_message (Error _) m = Error m"
| "set_message (TypeError _) m = TypeError m"

text \<open>The branch of \<open>handle\<close> taken when a goal scheduler supports the invocation.\<close>

definition handle_scheduled ::
  "FulfillEnv \<Rightarrow> GoalScheduler \<Rightarrow> GoalInvocation \<Rightarrow> (error + HandlerResult) \<times> effect list" where
  "handle_scheduled env goalScheduler gi =
     (let sdmGoal = gi_sdmGoal gi in
      case schedule goalScheduler gi of
        (Inl e, se) \<Rightarrow> (Inl e, se)
      | (Inr result, se) \<Rightarrow>
          if result \<noteq> None \<and> egr_code (the result) \<noteq> None \<and> egr_code (the result) \<noteq> Some 0 then
            (Inr \<lparr> hr_code = 0, hr_result = result \<rparr>,
             se @ [UpdateGoal sdmGoal ((params failure ''Failed to schedule goal'')
                     \<lparr> upd_url := gi_progressLog_url gi \<rparr>)]
                @ reportEndAndClose env result)
          else
            (Inr \<lparr> hr_code = 0, hr_result = result \<rparr>,
             se @ [UpdateGoal sdmGoal
                    \<lparr> upd_state = (if result \<noteq> None \<and> egr_state (the result) \<noteq> None
                                   then the (egr_state (the result)) else in_process),
                      upd_description = (if result \<noteq> None \<and> truthy (egr_description (the result))
                                   then the (egr_description (the result))
                                   else descriptionFromState env (gi_goal gi) in_process sdmGoal),
                      upd_url = gi_progressLog_url gi,
                      upd_externalUrls = (if result \<noteq> None then egr_externalUrls (the result) else []),
                      upd_data = None,
                      upd_phase = (if result \<noteq> None \<and> truthy (egr_phase (the result))
                                   then egr_phase (the result) else Some ''scheduled'') \<rparr>]))"

text \<open>The branch of \<open>handle\<close> that executes the goal in this process.\<close>

definition handle_in_process ::
  "FulfillEnv \<Rightarrow> GoalInvocation \<Rightarrow> (error + HandlerResult) \<times> effect list" where
  "handle_in_process env gi =
     (case executeGoal env gi of
        (Inr result, ee) \<Rightarrow>
          (Inr \<lparr> hr_code = 0, hr_result = result \<rparr>,
           reportStart env (gi_sdmGoal gi) @ ee @
             (if result = None \<or> egr_state (the result) = None
                 \<or> the (egr_state (the result)) \<in> set terminatingStates
              then reportEndAndClose env result else []))
      | (Inl e, ee) \<Rightarrow>
          (let e' = set_message e (''Goal executor threw exception: '' @ error_message e);
               egr = \<lparr> egr_code = Some 1, egr_message = Some (error_message e'),
                       egr_state = Some failure, egr_phase = None, egr_description = None,
                       egr_externalUrls = [] \<rparr>
           in (Inl e', reportStart env (gi_sdmGoal gi) @ ee @ reportEndAndClose env (Some egr))))"

text \<open>
  The goal invocation that \<open>handle\<close> builds once the goal is to be executed here; parsing
  the goal's parameters may throw.
\<close>

definition goalInvocation ::
  "FulfillEnv \<Rightarrow> GoalImplementationMapper \<Rightarrow> SdmGoalEvent \<Rightarrow> error + GoalInvocation" where
  "goalInvocation env implementationMapper sdmGoal =
     (case (if truthy (parameters sdmGoal) then JSON_parse env (the (parameters sdmGoal))
            else Inr ''{}'') of
        Inl e \<Rightarrow> Inl e
      | Inr ps \<Rightarrow> Inr \<lparr> gi_sdmGoal = sdmGoal,
                         gi_goal = findImplementationBySdmGoal implementationMapper sdmGoal,
                         gi_progressLog_url = logFactory_url env sdmGoal,
                         gi_parameters = ps \<rparr>)"

text \<open>
  \<open>FulfillGoalOnRequested.handle\<close>. Resolving the repository reference, the credentials,
  the channels and the preference store writes nothing and is left out, as is the
  deletion of the goal's \<open>id\<close>, a field that is not modelled.
\<close>

definition handle_requested ::
  "FulfillEnv \<Rightarrow> SoftwareDeliveryMachineConfiguration \<Rightarrow> GoalImplementationMapper \<Rightarrow> SdmGoalEvent
     \<Rightarrow> (error + HandlerResult) \<times> effect list" where
  "handle_requested env configuration implementationMapper sdmGoal =
     (if \<not> shouldFulfill env sdmGoal then (Inr Success, [])
      else
        (case verifyGoal (fe_crypto env) sdmGoal (cfg_goalSigning configuration) of
           (Inl e, effs) \<Rightarrow> (Inl e, effs)
         | (Inr u, effs) \<Rightarrow>
             if cancelableGoal env sdmGoal \<and> isGoalCanceled env sdmGoal then (Inr Success, effs)
             else if fulfillment_method (fulfillment sdmGoal) = SideEffect \<and>
                     fulfillment_registration (fulfillment sdmGoal) \<noteq> cfg_name configuration
               then (Inr Success, effs)
             else if fulfillment_method (fulfillment sdmGoal) = Other
               then (Inr Success,
                     effs @ [UpdateGoal sdmGoal
                        (params failure (''No fulfillment for '' @ uniqueName sdmGoal))])
             else
               (case goalInvocation env implementationMapper sdmGoal of
                  Inl e \<Rightarrow> (Inl e, effs)
                | Inr gi \<Rightarrow>
                    (let (r, es) = (case findGoalScheduler gi configuration of
                                      Some goalScheduler \<Rightarrow> handle_scheduled env goalScheduler gi
                                    | None \<Rightarrow> handle_in_process env gi)
                     in (r, effs @ es)))))"

section \<open>Cancelling a goal set\<close>

text \<open>The Slack markup helpers of \<open>@atomist/slack-messages\<close>.\<close>

definition italic :: "string \<Rightarrow> string" where
  "italic t = ''_'' @ t @ ''_''"

definition bold :: "string \<Rightarrow> string" where
  "bold t = ''*'' @ t @ ''*''"

definition codeLine :: "string \<Rightarrow> string" where
  "codeLine t = ''`'' @ t @ ''`''"

text \<open>
  The two queries of \<open>cancelGoalSet\<close>: \<open>SdmGoalSetForId\<close>, whose result array may be absent,
  and \<open>fetchGoalsForCommit\<close>, called with the set's repository coordinates, provider and id.
\<close>

record CancelEnv =
  query_SdmGoalSetForId :: "string \<Rightarrow> SdmGoalSet list option"
  fetchGoalsForCommit :: "SdmRepo \<Rightarrow> string \<Rightarrow> string \<Rightarrow> string \<Rightarrow> SdmGoalEvent list"

definition cancelGoalSet :: "CancelEnv \<Rightarrow> string \<Rightarrow> (error + unit) \<times> effect list" where
  "cancelGoalSet env gsid =
     (case query_SdmGoalSetForId env gsid of
        None \<Rightarrow> (Inl (TypeError ''Cannot read property 0 of undefined''), [])
      | Some [] \<Rightarrow> (Inl (TypeError ''Cannot read property repo of undefined''), [])
      | Some (gs # rest) \<Rightarrow>
          (let goals = fetchGoalsForCommit env (gs_repo gs) (gs_sha gs) (gs_branch gs) gsid
           in (Inr (),
               map (\<lambda>goal. UpdateGoal goal (params canceled (''Canceled '' @ name goal)))
                 (filter (\<lambda>goal. state goal \<notin> set [success, canceled, stopped, skipped, failure]) goals)
               @ (if rest = [] then [SendGoalSet (gs \<lparr> gs_state := canceled \<rparr>)] else [])
               @ [Respond (''Canceled goal set '' @ italic (gs_goalSet gs) @ '' ''
                    @ codeLine (take 7 gsid) @ '' on '' @ codeLine (take 7 (gs_sha gs))
                    @ '' of '' @ bold (repo_owner (gs_repo gs) @ ''/''
                    @ repo_name (gs_repo gs) @ ''/'' @ gs_branch gs))])))"

section \<open>External status on goal completion\<close>

record SoftwareDeliveryMachine =
  sdm_name :: "string option"
  sdm_configuration_name :: string

record GoalCompletionListenerInvocation =
  completedGoal :: SdmGoalEvent
  allGoals :: "SdmGoalEvent list"

text \<open>\<open>String.prototype.replace("@", "")\<close> removes the first \<open>@\<close>.\<close>

fun remove_first_at :: "string \<Rightarrow> string" where
  "remove_first_at [] = []"
| "remove_first_at (c # cs) = (if c = CHR ''@'' then cs else c # remove_first_at cs)"

definition prefix :: "SoftwareDeliveryMachine \<Rightarrow> string" where
  "prefix sdm = (if truthy (sdm_name sdm) then the (sdm_name sdm) @ '' goals'' else ''Atomist SDM goals'')"

definition status_context_of :: "SoftwareDeliveryMachine \<Rightarrow> string" where
  "status_context_of sdm = ''sdm/'' @ remove_first_at (sdm_configuration_name sdm)"

definition allSuccessful :: "SdmGoalEvent list \<Rightarrow> bool" where
  "allSuccessful goals = (\<not> list_ex (\<lambda>g. state g \<noteq> success) goals)"

text \<open>An absent value is rendered \<open>undefined\<close> by a template literal.\<close>

definition template_str :: "string option \<Rightarrow> string" where
  "template_str v = (case v of None \<Rightarrow> ''undefined'' | Some t \<Rightarrow> t)"

definition setGitHubStatusOnGoalCompletion ::
  "SoftwareDeliveryMachine \<Rightarrow> GoalCompletionListenerInvocation \<Rightarrow> effect list" where
  "setGitHubStatusOnGoalCompletion sdm gci =
     (if state (completedGoal gci) = failure then
        [CreateStatus \<lparr> status_context = status_context_of sdm,
           status_description = prefix sdm @ '': '' @ template_str (description (completedGoal gci)),
           status_target_url = url (completedGoal gci),
           status_state = ''failure'' \<rparr>]
      else if allSuccessful (allGoals gci) then
        [CreateStatus \<lparr> status_context = status_context_of sdm,
           status_description = prefix sdm @ '': all succeeded'',
           status_target_url = Some ''https://app.atomist.com'',
           status_state = ''success'' \<rparr>]
      else [])"


section \<open>Notions used in the statements\<close>

text \<open>A string without a newline character.\<close>

definition nl_free :: "string \<Rightarrow> bool" where
  "nl_free s \<longleftrightarrow> CHR 0x0A \<notin> set s"

text \<open>
  The text fields that \<open>normalizeGoal\<close> writes up to and including the \<open>sha\<close> line each
  stay on one line.
\<close>

definition single_line_prefix :: "SdmGoalEvent \<Rightarrow> bool" where
  "single_line_prefix g \<longleftrightarrow>
     nl_free (uniqueName g) \<and> nl_free (environment g) \<and> nl_free (goalSetId g) \<and>
     nl_free (repo_owner (repo g)) \<and> nl_free (repo_name (repo g)) \<and>
     nl_free (repo_providerId (repo g)) \<and> nl_free (sha g)"

text \<open>The value of a decimal numeral, the inverse of \<open>show_nat\<close>.\<close>

definition read_nat :: "string \<Rightarrow> nat" where
  "read_nat s = foldl (\<lambda>a c. 10 * a + (of_char c - 48)) 0 s"

text \<open>The states in which a goal is finished.\<close>

definition terminal :: "SdmGoalState \<Rightarrow> bool" where
  "terminal s \<longleftrightarrow> s \<in> {success, failure, canceled, skipped, stopped}"

text \<open>The goal-state changes among the effects of a handler, and the states they write.\<close>

fun is_update :: "effect \<Rightarrow> bool" where
  "is_update (UpdateGoal g p) = True"
| "is_update e = False"

fun written_state :: "effect \<Rightarrow> SdmGoalState option" where
  "written_state (UpdateGoal g p) = Some (upd_state p)"
| "written_state e = None"

subsection \<open>Concrete goals, keys and collaborators\<close>

definition example_repo :: SdmRepo where
  "example_repo = \<lparr> repo_owner = ''atomist'', repo_name = ''sdm'', repo_providerId = ''gh'' \<rparr>"

definition example_goal :: SdmGoalEvent where
  "example_goal = \<lparr> uniqueName = ''build'', environment = ''0-code'', name = ''build'',
     goalSet = ''ci'', goalSetId = ''gs1'', state = requested, ts = 1, version = 1,
     repo = example_repo, push_repo = example_repo, sha = ''abc'', branch = ''master'',
     fulfillment = \<lparr> fulfillment_method = Sdm, fulfillment_name = ''builder'',
       fulfillment_registration = ''my-sdm'' \<rparr>,
     preConditions = [], description = None, data = None, url = None, externalUrls = [],
     provenance = [], retryFeasible = None, approvalRequired = None, approval = None,
     preApprovalRequired = None, preApproval = None, parameters = None, signature = None \<rparr>"

text \<open>
  A stand-in for the crypto library at concrete inputs: a signature names the key and
  the message it was made over, and verifies for that key and that message only.
\<close>

definition example_crypto :: crypto where
  "example_crypto = \<lparr> rsa_sign = (\<lambda>priv pass m. priv @ '':'' @ m),
     rsa_verify = (\<lambda>pub m sg. sg = pub @ '':'' @ m) \<rparr>"

definition example_key :: GoalSigningKey where
  "example_key = \<lparr> sk_name = ''k1'', sk_publicKey = ''k1'', sk_privateKey = ''k1'',
     sk_passphrase = None \<rparr>"

definition example_gsc :: GoalSigningConfiguration where
  "example_gsc = \<lparr> gsc_enabled = True, gsc_signingKey = Some example_key,
     gsc_verificationKeys = [\<lparr> vk_name = ''k1'', vk_publicKey = ''k1'' \<rparr>] \<rparr>"


text \<open>
  A set of two goals: \<open>build\<close>, which has succeeded, and \<open>deploy\<close>, planned, with
  \<open>build\<close> as its only precondition and fulfilled as a side effect registered under
  this SDM's own name.
\<close>

definition example_upstream :: SdmGoalEvent where
  "example_upstream = example_goal\<lparr> state := success \<rparr>"

definition example_dependent :: SdmGoalEvent where
  "example_dependent = example_goal\<lparr> uniqueName := ''deploy'', name := ''deploy'',
     state := planned,
     preConditions := [\<lparr> key_environment = ''0-code'', key_uniqueName = ''build'',
                          key_name = ''build'' \<rparr>],
     fulfillment := \<lparr> fulfillment_method = SideEffect, fulfillment_name = ''my-sdm'',
       fulfillment_registration = ''my-sdm'' \<rparr> \<rparr>"

definition example_mapper :: GoalImplementationMapper where
  "example_mapper = \<lparr> findGoalBySdmGoal = (\<lambda>g. None),
     findFulfillmentCallbackForGoal = (\<lambda>g. []),
     findImplementationBySdmGoal = (\<lambda>g. \<lparr> goal_waitingForPreApprovalDescription = ''Start required'',
        goal_requestedDescription = ''Ready'' \<rparr>) \<rparr>"

definition example_handler :: RequestDownstreamGoalsOnGoalSuccess where
  "example_handler = \<lparr> rd_name = ''my-sdm'', rd_implementationMapper = example_mapper,
     rd_goalSigning = None, rd_isGoalRelevant = (\<lambda>g. True),
     rd_fetchGoalsFromPush = (\<lambda>g. [example_upstream, example_dependent]),
     rd_crypto = example_crypto \<rparr>"

text \<open>The same set with \<open>deploy\<close> fulfilled by this SDM itself.\<close>

definition example_handler_sdm :: RequestDownstreamGoalsOnGoalSuccess where
  "example_handler_sdm = example_handler\<lparr> rd_fetchGoalsFromPush :=
     (\<lambda>g. [example_upstream, example_dependent\<lparr> fulfillment := fulfillment example_goal \<rparr>]) \<rparr>"

text \<open>
  A requested goal event is admitted by the dispatcher when it is to be fulfilled by this
  SDM, its signature verifies and it has not been canceled; it is executed here unless
  it is a side effect of another registration or has no fulfillment.
\<close>

definition admitted :: "FulfillEnv \<Rightarrow> SoftwareDeliveryMachineConfiguration \<Rightarrow> SdmGoalEvent \<Rightarrow> bool" where
  "admitted env configuration sdmGoal \<longleftrightarrow>
     shouldFulfill env sdmGoal \<and>
     verifyGoal (fe_crypto env) sdmGoal (cfg_goalSigning configuration) = (Inr (), []) \<and>
     \<not> (cancelableGoal env sdmGoal \<and> isGoalCanceled env sdmGoal)"

definition executed_here :: "SoftwareDeliveryMachineConfiguration \<Rightarrow> SdmGoalEvent \<Rightarrow> bool" where
  "executed_here configuration sdmGoal \<longleftrightarrow>
     \<not> (fulfillment_method (fulfillment sdmGoal) = SideEffect \<and>
        fulfillment_registration (fulfillment sdmGoal) \<noteq> cfg_name configuration) \<and>
     fulfillment_method (fulfillment sdmGoal) \<noteq> Other"

text \<open>The result that the catch clause of \<open>handle\<close> builds from a thrown error.\<close>

definition captured :: "error \<Rightarrow> ExecuteGoalResult" where
  "captured e = \<lparr> egr_code = Some 1,
     egr_message = Some (''Goal executor threw exception: '' @ error_message e),
     egr_state = Some failure, egr_phase = None, egr_description = None,
     egr_externalUrls = [] \<rparr>"

text \<open>The effects end with the closing of the progress log.\<close>

definition closes_last :: "effect list \<Rightarrow> bool" where
  "closes_last es \<longleftrightarrow> es \<noteq> [] \<and> last es = ProgressClose"

text \<open>
  A dispatcher without goal schedulers whose executor throws, and the same dispatcher
  with a scheduler that supports every invocation and fails to schedule.
\<close>

definition example_env :: FulfillEnv where
  "example_env = \<lparr> shouldFulfill = (\<lambda>g. True), cancelableGoal = (\<lambda>g. False),
     isGoalCanceled = (\<lambda>g. False), logFactory_url = (\<lambda>g. Some ''https://log''),
     descriptionFromState = (\<lambda>gl st g. ''Working''), JSON_parse = Inr,
     executeGoal = (\<lambda>gi. (Inl (Error ''boom''), [])), serializeResult = (\<lambda>r. ''result''),
     start_date = ''t0'', finish_date = ''t1'', duration = ''1s'', hostname = ''host'',
     client_name = ''my-sdm'', client_version = ''1.0'', fe_crypto = example_crypto \<rparr>"

definition example_configuration :: SoftwareDeliveryMachineConfiguration where
  "example_configuration = \<lparr> cfg_name = ''my-sdm'', cfg_goalSigning = None,
     cfg_goalScheduler = NoGoalScheduler \<rparr>"

definition failed_to_schedule :: ExecuteGoalResult where
  "failed_to_schedule = \<lparr> egr_code = Some 1, egr_message = None, egr_state = None,
     egr_phase = None, egr_description = None, egr_externalUrls = [] \<rparr>"

definition example_scheduler :: GoalScheduler where
  "example_scheduler = \<lparr> supports = (\<lambda>gi. True),
     schedule = (\<lambda>gi. (Inr (Some failed_to_schedule), [])) \<rparr>"

definition example_configuration_scheduled :: SoftwareDeliveryMachineConfiguration where
  "example_configuration_scheduled =
     example_configuration\<lparr> cfg_goalScheduler := OneGoalScheduler example_scheduler \<rparr>"

definition example_invocation :: GoalInvocation where
  "example_invocation = \<lparr> gi_sdmGoal = example_goal,
     gi_goal = findImplementationBySdmGoal example_mapper example_goal,
     gi_progressLog_url = Some ''https://log'', gi_parameters = ''{}'' \<rparr>"

text \<open>A success status is among the effects.\<close>

definition publishes_success :: "effect list \<Rightarrow> bool" where
  "publishes_success es \<longleftrightarrow> list_ex (\<lambda>e. case e of CreateStatus st \<Rightarrow> status_state st = ''success''
                                                  | _ \<Rightarrow> False) es"

text \<open>The goal set of the two example goals, and the queries that return it.\<close>

definition example_goal_set :: SdmGoalSet where
  "example_goal_set = \<lparr> gs_goalSet = ''ci'', gs_goalSetId = ''gs1'', gs_state = in_process,
     gs_repo = example_repo, gs_sha = ''abc'', gs_branch = ''master'' \<rparr>"

definition example_cancel_env :: CancelEnv where
  "example_cancel_env = \<lparr> query_SdmGoalSetForId = (\<lambda>i. Some [example_goal_set]),
     fetchGoalsForCommit = (\<lambda>r s b i. [example_upstream, example_dependent]) \<rparr>"

definition example_sdm :: SoftwareDeliveryMachine where
  "example_sdm = \<lparr> sdm_name = Some ''my-sdm'', sdm_configuration_name = ''@atomist/my-sdm'' \<rparr>"

definition example_failed :: SdmGoalEvent where
  "example_failed = example_goal\<lparr> state := failure, url := Some ''https://log'',
     description := Some ''Failed: build'' \<rparr>"

section \<open>Canonical serialization\<close>

lemma split_at_newline:
  "nl_free a \<Longrightarrow> nl_free b \<Longrightarrow> a @ CHR 0x0A # r = b @ CHR 0x0A # r' \<Longrightarrow> a = b \<and> r = r'"
proof (induction a arbitrary: b)
  case Nil
  then show ?case by (cases b) (auto simp: nl_free_def)
next
  case (Cons x a)
  then show ?case by (cases b) (auto simp: nl_free_def)
qed


lemma of_char_digit: "d < 10 \<Longrightarrow> (of_char (digit_char d) :: nat) = 48 + d"
  by (simp add: digit_char_def)


lemma read_show_nat: "read_nat (show_nat n) = n"
proof (induction n rule: show_nat.induct)
  case (1 n)
  show ?case
  proof (cases "n < 10")
    case True
    then show ?thesis by (simp add: show_nat.simps[of n] read_nat_def of_char_digit)
  next
    case False
    with 1 have "read_nat (show_nat (n div 10)) = n div 10" by simp
    with False show ?thesis
      by (subst show_nat.simps) (simp add: read_nat_def of_char_digit)
  qed
qed

lemma show_nat_inj: "show_nat m = show_nat n \<Longrightarrow> m = n"
  by (metis read_show_nat)

lemma digit_char_neq: "d < 10 \<Longrightarrow> digit_char d \<noteq> CHR 0x0A \<and> digit_char d \<noteq> CHR ''-''"
  using of_char_digit[of d] by (auto simp del: of_char_digit)

lemma show_nat_chars: "c \<in> set (show_nat n) \<Longrightarrow> c \<noteq> CHR 0x0A \<and> c \<noteq> CHR ''-''"
proof (induction n rule: show_nat.induct)
  case (1 n)
  show ?case
  proof (cases "n < 10")
    case True
    with 1(2) show ?thesis by (simp add: show_nat.simps[of n] digit_char_neq)
  next
    case False
    from 1(2) False have "c \<in> set (show_nat (n div 10)) \<or> c = digit_char (n mod 10)"
      by (auto simp: show_nat.simps[of n])
    with 1(1) False show ?thesis by (auto simp: digit_char_neq)
  qed
qed

lemma show_nat_nonempty: "show_nat n \<noteq> []"
  by (subst show_nat.simps) simp

lemma show_nat_hd: "hd (show_nat n) \<noteq> CHR ''-''"
  using show_nat_chars[of "hd (show_nat n)" n] show_nat_nonempty[of n] by simp

lemma show_int_inj: "show_int i = show_int j \<Longrightarrow> i = j"
proof -
  assume eq: "show_int i = show_int j"
  consider "i < 0" "j < 0" | "i < 0" "\<not> j < 0" | "\<not> i < 0" "j < 0" | "\<not> i < 0" "\<not> j < 0"
    by blast
  then show ?thesis
  proof cases
    case 1
    with eq have "nat (- i) = nat (- j)" by (simp add: show_int_def show_nat_inj)
    with 1 show ?thesis by simp
  next
    case 2
    with eq have "show_nat (nat j) = CHR ''-'' # show_nat (nat (- i))" by (simp add: show_int_def)
    then have "hd (show_nat (nat j)) = CHR ''-''" by simp
    then show ?thesis using show_nat_hd by blast
  next
    case 3
    with eq have "show_nat (nat i) = CHR ''-'' # show_nat (nat (- j))" by (simp add: show_int_def)
    then have "hd (show_nat (nat i)) = CHR ''-''" by simp
    then show ?thesis using show_nat_hd by blast
  next
    case 4
    with eq have "nat i = nat j" by (simp add: show_int_def show_nat_inj)
    with 4 show ?thesis by simp
  qed
qed

lemma show_int_nl_free: "nl_free (show_int i)"
  using show_nat_chars by (auto simp: show_int_def nl_free_def)

lemma state_str_nl_free: "nl_free (state_str s)"
  by (cases s) (simp_all add: nl_free_def)

lemma state_str_inj: "state_str s = state_str t \<Longrightarrow> s = t"
  by (cases s; cases t) simp_all


lemma line_split:
  "p @ a @ nl @ r = p @ b @ nl @ r' \<Longrightarrow> nl_free a \<Longrightarrow> nl_free b \<Longrightarrow> a = b \<and> r = r'"
  using split_at_newline[of a b "''        '' @ r" "''        '' @ r'"] by (simp add: nl_def)

lemma nl_free_append: "nl_free (a @ b) \<longleftrightarrow> nl_free a \<and> nl_free b"
  by (auto simp: nl_free_def)

lemma normalizeGoal_fields:
  assumes eq: "normalizeGoal g = normalizeGoal h"
    and g: "single_line_prefix g" and h: "single_line_prefix h"
  shows "uniqueName g = uniqueName h \<and> goalSetId g = goalSetId h \<and> state g = state h
     \<and> sha g = sha h \<and> ts g = ts h"
proof -
  have rg: "nl_free (repo_owner (repo g) @ ''/'' @ repo_name (repo g) @ ''/'' @ repo_providerId (repo g))"
    using g by (simp add: nl_free_def single_line_prefix_def)
  have rh: "nl_free (repo_owner (repo h) @ ''/'' @ repo_name (repo h) @ ''/'' @ repo_providerId (repo h))"
    using h by (simp add: nl_free_def single_line_prefix_def)
  have l1: "nl_free (uniqueName g)" "nl_free (uniqueName h)"
    and l2: "nl_free (environment g)" "nl_free (environment h)"
    and l3: "nl_free (goalSetId g)" "nl_free (goalSetId h)"
    and l8: "nl_free (sha g)" "nl_free (sha h)"
    using g h by (simp_all add: single_line_prefix_def)
  note s1 = line_split[OF eq[unfolded normalizeGoal_def] l1]
  note s2 = line_split[OF s1[THEN conjunct2] l2]
  note s3 = line_split[OF s2[THEN conjunct2] l3]
  note s4 = line_split[OF s3[THEN conjunct2] state_str_nl_free state_str_nl_free]
  note s5 = line_split[OF s4[THEN conjunct2] show_int_nl_free show_int_nl_free]
  note s6 = line_split[OF s5[THEN conjunct2] show_int_nl_free show_int_nl_free]
  note s7 = line_split[OF s6[THEN conjunct2] rg rh]
  note s8 = line_split[OF s7[THEN conjunct2] l8]
  from s1[THEN conjunct1] s3[THEN conjunct1] s8[THEN conjunct1]
    state_str_inj[OF s4[THEN conjunct1]] show_int_inj[OF s5[THEN conjunct1]]
  show ?thesis by simp
qed


text \<open>
  Claim C5, as the code has it: for two goal events whose text fields written up to the
  \<open>sha\<close> line (uniqueName, environment, goalSetId, the repository coordinates and the
  sha) contain no newline, a difference in uniqueName, goalSetId, state, sha or ts gives
  different canonical serializations.
\<close>

theorem normalizeGoal_injective_single_line:
  assumes "single_line_prefix g" and "single_line_prefix h"
    and "uniqueName g \<noteq> uniqueName h \<or> goalSetId g \<noteq> goalSetId h \<or> state g \<noteq> state h
         \<or> sha g \<noteq> sha h \<or> ts g \<noteq> ts h"
  shows "normalizeGoal g \<noteq> normalizeGoal h"
  using assms normalizeGoal_fields[of g h] by blast

theorem normalizeGoal_injective_single_line_witness:
  "single_line_prefix example_goal \<and> single_line_prefix (example_goal\<lparr> sha := ''abd'' \<rparr>)
   \<and> sha example_goal \<noteq> sha (example_goal\<lparr> sha := ''abd'' \<rparr>)
   \<and> normalizeGoal example_goal \<noteq> normalizeGoal (example_goal\<lparr> sha := ''abd'' \<rparr>)"
proof -
  have a: "single_line_prefix example_goal"
    by (simp add: single_line_prefix_def nl_free_def example_goal_def example_repo_def)
  have b: "single_line_prefix (example_goal\<lparr> sha := ''abd'' \<rparr>)"
    by (simp add: single_line_prefix_def nl_free_def example_goal_def example_repo_def)
  have c: "sha example_goal \<noteq> sha (example_goal\<lparr> sha := ''abd'' \<rparr>)"
    by (simp add: example_goal_def)
  from normalizeGoal_injective_single_line[OF a b] c a b show ?thesis by blast
qed

text \<open>
  Without that condition the serialization is not injective on those fields: a field
  holding a line break and a label imitates the following line. The two goal events
  below differ in goalSetId and have the same canonical serialization.
\<close>

theorem normalizeGoal_not_injective:
  "goalSetId (example_goal\<lparr> environment := ''e'' @ nl @ ''goalSetId:x'', goalSetId := ''y'' \<rparr>)
     \<noteq> goalSetId (example_goal\<lparr> environment := ''e'', goalSetId := ''x'' @ nl @ ''goalSetId:y'' \<rparr>)
   \<and> normalizeGoal (example_goal\<lparr> environment := ''e'' @ nl @ ''goalSetId:x'', goalSetId := ''y'' \<rparr>)
     = normalizeGoal (example_goal\<lparr> environment := ''e'', goalSetId := ''x'' @ nl @ ''goalSetId:y'' \<rparr>)"
  by (simp add: normalizeGoal_def nl_def example_goal_def)


section \<open>Signing and verifying goals\<close>

lemma normalizeGoal_signature: "normalizeGoal (g\<lparr> signature := sg \<rparr>) = normalizeGoal g"
  by (simp add: normalizeGoal_def)

lemma isGoalRejected_signature: "isGoalRejected (g\<lparr> signature := sg \<rparr>) = isGoalRejected g"
  by (simp add: isGoalRejected_def)

lemma normalizeGoal_sha_changed:
  "s' \<noteq> sha g \<Longrightarrow> normalizeGoal (g\<lparr> sha := s' \<rparr>) \<noteq> normalizeGoal g"
  by (simp add: normalizeGoal_def)

lemma find_None_iff_all: "find P xs = None \<longleftrightarrow> (\<forall>x\<in>set xs. \<not> P x)"
  by (induction xs) auto

lemma verifyGoal_accepts:
  assumes "gsc_enabled cfg" and "signature goal = Some sg" and "sg \<noteq> []"
    and "vk \<in> set (gsc_verificationKeys cfg)"
    and "rsa_verify c (vk_publicKey vk) (normalizeGoal goal) sg"
  shows "verifyGoal c goal (Some cfg) = (Inr (), [])"
proof -
  have "find (\<lambda>vk. rsa_verify c (vk_publicKey vk) (normalizeGoal goal) sg) (gsc_verificationKeys cfg) \<noteq> None"
    using assms(4,5) by (auto simp: find_None_iff_all)
  then show ?thesis using assms(1-3)
    by (auto simp: verifyGoal_def split: option.splits)
qed

lemma verifyGoal_invalid:
  assumes "gsc_enabled cfg" and "\<not> isGoalRejected goal" and "signature goal = Some sg" and "sg \<noteq> []"
    and "\<forall>vk\<in>set (gsc_verificationKeys cfg). \<not> rsa_verify c (vk_publicKey vk) (normalizeGoal goal) sg"
  shows "verifyGoal c goal (Some cfg) =
    (Inl (Error ''SDM goal signature invalid. Rejecting goal!''), rejectGoal ''signature was invalid'' goal)"
proof -
  have "find (\<lambda>vk. rsa_verify c (vk_publicKey vk) (normalizeGoal goal) sg) (gsc_verificationKeys cfg) = None"
    using assms(5) by (simp add: find_None_iff_all)
  then show ?thesis using assms(1-4)
    by (simp add: verifyGoal_def)
qed

lemma verifyGoal_missing:
  assumes "gsc_enabled cfg" and "\<not> isGoalRejected goal" and "signature goal = None \<or> signature goal = Some []"
  shows "verifyGoal c goal (Some cfg) =
    (Inl (Error ''SDM goal signature is missing. Rejecting goal!''), rejectGoal ''signature was missing'' goal)"
  using assms by (auto simp: verifyGoal_def)

text \<open>
  Claim C3, as the code has it. The crypto library is taken at its word: a signature made
  with the signing key is not empty, verifies under that key's public key for the
  message it was made over, and verifies under no configured key for any other message.
  Then the signed goal verifies against a key set holding the signing key's public key;
  a goal carrying that signature whose canonical serialization differs from the signed
  one is rejected as invalid, unless it is already marked rejected (state failure with
  description \<open>Rejected: <name>\<close>), when verification is skipped; and changing the sha
  changes the canonical serialization.
\<close>

theorem sign_verify_roundtrip:
  assumes en: "gsc_enabled cfg" and key: "gsc_signingKey cfg = Some k"
    and vk: "vk \<in> set (gsc_verificationKeys cfg)" "vk_publicKey vk = sk_publicKey k"
    and correct: "\<forall>m. rsa_verify c (sk_publicKey k) m (rsa_sign c (sk_privateKey k) (sk_passphrase k) m)"
    and nonempty: "\<forall>m. rsa_sign c (sk_privateKey k) (sk_passphrase k) m \<noteq> []"
    and unforgeable: "\<forall>v\<in>set (gsc_verificationKeys cfg). \<forall>m m'.
        rsa_verify c (vk_publicKey v) m' (rsa_sign c (sk_privateKey k) (sk_passphrase k) m) \<longrightarrow> m' = m"
  shows "\<exists>signed. signGoal c g (Some cfg) = Some signed
     \<and> verifyGoal c signed (Some cfg) = (Inr (), [])
     \<and> (\<forall>t. signature t = signature signed \<and> normalizeGoal t \<noteq> normalizeGoal signed
              \<and> \<not> isGoalRejected t \<longrightarrow>
           verifyGoal c t (Some cfg) =
             (Inl (Error ''SDM goal signature invalid. Rejecting goal!''),
              rejectGoal ''signature was invalid'' t))
     \<and> (\<forall>s'. s' \<noteq> sha g \<longrightarrow> normalizeGoal (signed\<lparr> sha := s' \<rparr>) \<noteq> normalizeGoal signed)"
proof -
  define sg where "sg = rsa_sign c (sk_privateKey k) (sk_passphrase k) (normalizeGoal g)"
  define signed where "signed = g\<lparr> signature := Some sg \<rparr>"
  have s: "signGoal c g (Some cfg) = Some signed"
    using en key by (simp add: signGoal_def signed_def sg_def)
  have n: "normalizeGoal signed = normalizeGoal g"
    by (simp add: signed_def normalizeGoal_signature)
  have ne: "sg \<noteq> []"
    using nonempty by (simp add: sg_def)
  have ok: "verifyGoal c signed (Some cfg) = (Inr (), [])"
  proof (rule verifyGoal_accepts[OF en _ ne vk(1)])
    show "signature signed = Some sg" by (simp add: signed_def)
    show "rsa_verify c (vk_publicKey vk) (normalizeGoal signed) sg"
      using correct by (simp add: n vk(2) sg_def)
  qed
  have bad: "verifyGoal c t (Some cfg) =
             (Inl (Error ''SDM goal signature invalid. Rejecting goal!''),
              rejectGoal ''signature was invalid'' t)"
    if sig: "signature t = signature signed" and d: "normalizeGoal t \<noteq> normalizeGoal signed"
      and r: "\<not> isGoalRejected t" for t
  proof (rule verifyGoal_invalid[OF en r _ ne])
    show "signature t = Some sg" using sig by (simp add: signed_def)
    show "\<forall>v\<in>set (gsc_verificationKeys cfg). \<not> rsa_verify c (vk_publicKey v) (normalizeGoal t) sg"
      using unforgeable d n unfolding sg_def by metis
  qed
  have sha: "normalizeGoal (signed\<lparr> sha := s' \<rparr>) \<noteq> normalizeGoal signed" if "s' \<noteq> sha g" for s'
    using normalizeGoal_sha_changed[of s' signed] that by (simp add: signed_def)
  from s ok bad sha show ?thesis by blast
qed

theorem sign_verify_roundtrip_witness:
  "gsc_enabled example_gsc \<and> gsc_signingKey example_gsc = Some example_key \<and>
   (\<exists>signed. signGoal example_crypto example_goal (Some example_gsc) = Some signed
     \<and> verifyGoal example_crypto signed (Some example_gsc) = (Inr (), [])
     \<and> (\<forall>t. signature t = signature signed \<and> normalizeGoal t \<noteq> normalizeGoal signed
              \<and> \<not> isGoalRejected t \<longrightarrow>
           verifyGoal example_crypto t (Some example_gsc) =
             (Inl (Error ''SDM goal signature invalid. Rejecting goal!''),
              rejectGoal ''signature was invalid'' t))
     \<and> (\<forall>s'. s' \<noteq> sha example_goal \<longrightarrow>
           normalizeGoal (signed\<lparr> sha := s' \<rparr>) \<noteq> normalizeGoal signed))"
proof -
  have en: "gsc_enabled example_gsc" by (simp add: example_gsc_def)
  have key: "gsc_signingKey example_gsc = Some example_key" by (simp add: example_gsc_def)
  have vk: "\<lparr> vk_name = ''k1'', vk_publicKey = ''k1'' \<rparr> \<in> set (gsc_verificationKeys example_gsc)"
    by (simp add: example_gsc_def)
  have pk: "vk_publicKey \<lparr> vk_name = ''k1'', vk_publicKey = ''k1'' \<rparr> = sk_publicKey example_key"
    by (simp add: example_key_def)
  have correct: "\<forall>m. rsa_verify example_crypto (sk_publicKey example_key) m
      (rsa_sign example_crypto (sk_privateKey example_key) (sk_passphrase example_key) m)"
    by (simp add: example_crypto_def example_key_def)
  have nonempty: "\<forall>m. rsa_sign example_crypto (sk_privateKey example_key) (sk_passphrase example_key) m \<noteq> []"
    by (simp add: example_crypto_def example_key_def)
  have unforgeable: "\<forall>v\<in>set (gsc_verificationKeys example_gsc). \<forall>m m'.
      rsa_verify example_crypto (vk_publicKey v) m'
        (rsa_sign example_crypto (sk_privateKey example_key) (sk_passphrase example_key) m) \<longrightarrow> m' = m"
    by (simp add: example_crypto_def example_key_def example_gsc_def)
  from sign_verify_roundtrip[where g = example_goal, OF en key vk pk correct nonempty unforgeable] en key
  show ?thesis by blast
qed

text \<open>
  The claim as stated fails for a signed field that \<open>normalizeValue\<close> renders the same
  before and after the change: the absent \<open>data\<close> and the data \<open>undefined\<close> are both
  written \<open>data:undefined\<close>, so the signature still verifies.
\<close>

theorem tampered_data_still_verifies:
  "data (the (signGoal example_crypto example_goal (Some example_gsc))) = None
   \<and> verifyGoal example_crypto
       ((the (signGoal example_crypto example_goal (Some example_gsc)))\<lparr> data := Some ''undefined'' \<rparr>)
       (Some example_gsc) = (Inr (), [])"
  by (simp add: signGoal_def verifyGoal_def isGoalRejected_def normalizeGoal_def normalizeValue_def
      example_gsc_def example_key_def example_crypto_def example_goal_def)

lemma handle_requested_verify_throws:
  "shouldFulfill env g \<Longrightarrow>
   verifyGoal (fe_crypto env) g (cfg_goalSigning configuration) = (Inl e, effs) \<Longrightarrow>
   handle_requested env configuration im g = (Inl e, effs)"
  by (simp add: handle_requested_def)

lemma handle_success_verify_throws:
  "rd_isGoalRelevant h g \<Longrightarrow>
   verifyGoal (rd_crypto h) g (rd_goalSigning h) = (Inl e, effs) \<Longrightarrow>
   handle_success h g = (Inl e, effs)"
  by (simp add: handle_success_def)

text \<open>
  Claim C4, as the code has it: with signing enabled, a goal that is not already marked
  rejected and whose signature is missing (absent or empty), or verified by no configured
  key, is updated to state failure with the description
  \<open>Rejected <name> because signature was missing\<close> or
  \<open>Rejected <name> because signature was invalid\<close>, the goal's name included, and
  \<open>verifyGoal\<close> throws. Processing of the event is aborted: the handler of requested goals
  (for a goal it is to fulfill) and the handler of succeeded goals (for a goal relevant
  to it) are rejected with that error, and the update that marks the goal failed is
  their only effect.
\<close>

theorem verifyGoal_rejects:
  assumes "gsc_enabled cfg" and "\<not> isGoalRejected goal"
    and "signature goal = None \<or> signature goal = Some [] \<or>
         (\<forall>vk\<in>set (gsc_verificationKeys cfg).
            \<not> rsa_verify c (vk_publicKey vk) (normalizeGoal goal) (the (signature goal)))"
  shows "verifyGoal c goal (Some cfg) =
     (if signature goal = None \<or> signature goal = Some [] then
        (Inl (Error ''SDM goal signature is missing. Rejecting goal!''),
         [UpdateGoal goal (params failure
            (''Rejected '' @ name goal @ '' because signature was missing''))])
      else
        (Inl (Error ''SDM goal signature invalid. Rejecting goal!''),
         [UpdateGoal goal (params failure
            (''Rejected '' @ name goal @ '' because signature was invalid''))]))
   \<and> (\<forall>env configuration im.
         fe_crypto env = c \<and> cfg_goalSigning configuration = Some cfg \<and> shouldFulfill env goal \<longrightarrow>
         handle_requested env configuration im goal =
           (if signature goal = None \<or> signature goal = Some [] then
              (Inl (Error ''SDM goal signature is missing. Rejecting goal!''),
               [UpdateGoal goal (params failure
                  (''Rejected '' @ name goal @ '' because signature was missing''))])
            else
              (Inl (Error ''SDM goal signature invalid. Rejecting goal!''),
               [UpdateGoal goal (params failure
                  (''Rejected '' @ name goal @ '' because signature was invalid''))])))
   \<and> (\<forall>h.
         rd_crypto h = c \<and> rd_goalSigning h = Some cfg \<and> rd_isGoalRelevant h goal \<longrightarrow>
         handle_success h goal =
           (if signature goal = None \<or> signature goal = Some [] then
              (Inl (Error ''SDM goal signature is missing. Rejecting goal!''),
               [UpdateGoal goal (params failure
                  (''Rejected '' @ name goal @ '' because signature was missing''))])
            else
              (Inl (Error ''SDM goal signature invalid. Rejecting goal!''),
               [UpdateGoal goal (params failure
                  (''Rejected '' @ name goal @ '' because signature was invalid''))])))"
proof -
  let ?missing = "signature goal = None \<or> signature goal = Some []"
  let ?e1 = "Error ''SDM goal signature is missing. Rejecting goal!''"
  let ?u1 = "[UpdateGoal goal (params failure
            (''Rejected '' @ name goal @ '' because signature was missing''))]"
  let ?e2 = "Error ''SDM goal signature invalid. Rejecting goal!''"
  let ?u2 = "[UpdateGoal goal (params failure
            (''Rejected '' @ name goal @ '' because signature was invalid''))]"
  have v1: "verifyGoal c goal (Some cfg) = (Inl ?e1, ?u1)" if "?missing"
    using verifyGoal_missing[OF assms(1,2) that] by (simp add: rejectGoal_def)
  have v2: "verifyGoal c goal (Some cfg) = (Inl ?e2, ?u2)" if "\<not> ?missing"
  proof -
    from that obtain sg where sg: "signature goal = Some sg" "sg \<noteq> []" by auto
    with assms(3) have "\<forall>vk\<in>set (gsc_verificationKeys cfg).
        \<not> rsa_verify c (vk_publicKey vk) (normalizeGoal goal) sg" by simp
    from verifyGoal_invalid[OF assms(1,2) sg this] show ?thesis
      by (simp add: rejectGoal_def)
  qed
  have r1: "handle_requested env configuration im goal = (Inl ?e1, ?u1)"
    if "?missing" "fe_crypto env = c" "cfg_goalSigning configuration = Some cfg"
       "shouldFulfill env goal" for env configuration im
    by (rule handle_requested_verify_throws[OF that(4)]) (simp add: that(2,3) v1[OF that(1)])
  have r2: "handle_requested env configuration im goal = (Inl ?e2, ?u2)"
    if "\<not> ?missing" "fe_crypto env = c" "cfg_goalSigning configuration = Some cfg"
       "shouldFulfill env goal" for env configuration im
    by (rule handle_requested_verify_throws[OF that(4)]) (simp add: that(2,3) v2[OF that(1)])
  have d1: "handle_success h goal = (Inl ?e1, ?u1)"
    if "?missing" "rd_crypto h = c" "rd_goalSigning h = Some cfg" "rd_isGoalRelevant h goal" for h
    by (rule handle_success_verify_throws[OF that(4)]) (simp add: that(2,3) v1[OF that(1)])
  have d2: "handle_success h goal = (Inl ?e2, ?u2)"
    if "\<not> ?missing" "rd_crypto h = c" "rd_goalSigning h = Some cfg" "rd_isGoalRelevant h goal" for h
    by (rule handle_success_verify_throws[OF that(4)]) (simp add: that(2,3) v2[OF that(1)])
  show ?thesis
  proof (cases ?missing)
    case True
    have "verifyGoal c goal (Some cfg) = (Inl ?e1, ?u1)" by (rule v1[OF True])
    moreover have "\<forall>env configuration im.
         fe_crypto env = c \<and> cfg_goalSigning configuration = Some cfg \<and> shouldFulfill env goal \<longrightarrow>
         handle_requested env configuration im goal = (Inl ?e1, ?u1)"
      using r1[OF True] by blast
    moreover have "\<forall>h. rd_crypto h = c \<and> rd_goalSigning h = Some cfg \<and> rd_isGoalRelevant h goal \<longrightarrow>
         handle_success h goal = (Inl ?e1, ?u1)"
      using d1[OF True] by blast
    ultimately show ?thesis using True by (simp only: if_True)
  next
    case False
    have "verifyGoal c goal (Some cfg) = (Inl ?e2, ?u2)" by (rule v2[OF False])
    moreover have "\<forall>env configuration im.
         fe_crypto env = c \<and> cfg_goalSigning configuration = Some cfg \<and> shouldFulfill env goal \<longrightarrow>
         handle_requested env configuration im goal = (Inl ?e2, ?u2)"
      using r2[OF False] by blast
    moreover have "\<forall>h. rd_crypto h = c \<and> rd_goalSigning h = Some cfg \<and> rd_isGoalRelevant h goal \<longrightarrow>
         handle_success h goal = (Inl ?e2, ?u2)"
      using d2[OF False] by blast
    ultimately show ?thesis using False by (simp only: if_False)
  qed
qed

theorem verifyGoal_rejects_witness:
  "gsc_enabled example_gsc \<and> \<not> isGoalRejected (example_goal\<lparr> signature := Some ''bogus'' \<rparr>) \<and>
   verifyGoal example_crypto (example_goal\<lparr> signature := Some ''bogus'' \<rparr>) (Some example_gsc) =
     (Inl (Error ''SDM goal signature invalid. Rejecting goal!''),
      [UpdateGoal (example_goal\<lparr> signature := Some ''bogus'' \<rparr>) (params failure
         ''Rejected build because signature was invalid'')]) \<and>
   handle_requested example_env (example_configuration\<lparr> cfg_goalSigning := Some example_gsc \<rparr>)
       example_mapper (example_goal\<lparr> signature := Some ''bogus'' \<rparr>) =
     (Inl (Error ''SDM goal signature invalid. Rejecting goal!''),
      [UpdateGoal (example_goal\<lparr> signature := Some ''bogus'' \<rparr>) (params failure
         ''Rejected build because signature was invalid'')]) \<and>
   handle_success (example_handler\<lparr> rd_goalSigning := Some example_gsc \<rparr>)
       (example_goal\<lparr> signature := Some ''bogus'' \<rparr>) =
     (Inl (Error ''SDM goal signature invalid. Rejecting goal!''),
      [UpdateGoal (example_goal\<lparr> signature := Some ''bogus'' \<rparr>) (params failure
         ''Rejected build because signature was invalid'')])"
proof -
  have en: "gsc_enabled example_gsc" by (simp add: example_gsc_def)
  have nr: "\<not> isGoalRejected (example_goal\<lparr> signature := Some ''bogus'' \<rparr>)"
    by (simp add: isGoalRejected_def example_goal_def)
  have bad: "signature (example_goal\<lparr> signature := Some ''bogus'' \<rparr>) = None
      \<or> signature (example_goal\<lparr> signature := Some ''bogus'' \<rparr>) = Some []
      \<or> (\<forall>vk\<in>set (gsc_verificationKeys example_gsc).
            \<not> rsa_verify example_crypto (vk_publicKey vk)
                (normalizeGoal (example_goal\<lparr> signature := Some ''bogus'' \<rparr>))
                (the (signature (example_goal\<lparr> signature := Some ''bogus'' \<rparr>))))"
    by (simp add: example_gsc_def example_crypto_def)
  note t = verifyGoal_rejects[OF en nr bad]
  have q: "fe_crypto example_env = example_crypto
      \<and> cfg_goalSigning (example_configuration\<lparr> cfg_goalSigning := Some example_gsc \<rparr>) = Some example_gsc
      \<and> shouldFulfill example_env (example_goal\<lparr> signature := Some ''bogus'' \<rparr>)"
    by (simp add: example_env_def)
  have p: "rd_crypto (example_handler\<lparr> rd_goalSigning := Some example_gsc \<rparr>) = example_crypto
      \<and> rd_goalSigning (example_handler\<lparr> rd_goalSigning := Some example_gsc \<rparr>) = Some example_gsc
      \<and> rd_isGoalRelevant (example_handler\<lparr> rd_goalSigning := Some example_gsc \<rparr>)
           (example_goal\<lparr> signature := Some ''bogus'' \<rparr>)"
    by (simp add: example_handler_def)
  from t have 1: "verifyGoal example_crypto (example_goal\<lparr> signature := Some ''bogus'' \<rparr>) (Some example_gsc) =
     (Inl (Error ''SDM goal signature invalid. Rejecting goal!''),
      [UpdateGoal (example_goal\<lparr> signature := Some ''bogus'' \<rparr>) (params failure
         ''Rejected build because signature was invalid'')])"
    by (simp add: example_goal_def)
  from t q have 2: "handle_requested example_env (example_configuration\<lparr> cfg_goalSigning := Some example_gsc \<rparr>)
       example_mapper (example_goal\<lparr> signature := Some ''bogus'' \<rparr>) =
     (Inl (Error ''SDM goal signature invalid. Rejecting goal!''),
      [UpdateGoal (example_goal\<lparr> signature := Some ''bogus'' \<rparr>) (params failure
         ''Rejected build because signature was invalid'')])"
    by (simp add: example_goal_def)
  from t p have 3: "handle_success (example_handler\<lparr> rd_goalSigning := Some example_gsc \<rparr>)
       (example_goal\<lparr> signature := Some ''bogus'' \<rparr>) =
     (Inl (Error ''SDM goal signature invalid. Rejecting goal!''),
      [UpdateGoal (example_goal\<lparr> signature := Some ''bogus'' \<rparr>) (params failure
         ''Rejected build because signature was invalid'')])"
    by (simp add: example_goal_def)
  from en nr 1 2 3 show ?thesis by blast
qed

text \<open>
  The description written is not the one of the claim as stated: it names the goal.
\<close>

theorem rejection_description_names_goal:
  "verifyGoal example_crypto example_goal (Some example_gsc) =
     (Inl (Error ''SDM goal signature is missing. Rejecting goal!''),
      [UpdateGoal example_goal (params failure ''Rejected build because signature was missing'')])
   \<and> ''Rejected build because signature was missing'' \<noteq> ''Rejected because signature was missing''"
  by (simp add: verifyGoal_def isGoalRejected_def rejectGoal_def example_gsc_def example_goal_def)


section \<open>The downstream-request engine\<close>

lemma isDirectlyDependentOn_iff:
  "isDirectlyDependentOn (goalKey u) g \<longleftrightarrow>
     (\<exists>p\<in>set (preConditions g). key_environment p = environment u \<and> key_uniqueName p = uniqueName u)"
  by (auto simp: isDirectlyDependentOn_def mapKeyToGoal_def goalKey_def find_None_iff_all)

lemma shouldBePlannedOrSkipped_iff:
  "shouldBePlannedOrSkipped g \<longleftrightarrow>
     state g = planned \<or> state g = skipped \<or> (state g = failure \<and> retryFeasible g = Some True)"
  by (simp add: shouldBePlannedOrSkipped_def)

lemma preconditionsAreMet_iff:
  "preconditionsAreMet g goals \<longleftrightarrow>
     (\<forall>p\<in>set (preConditions g). \<exists>u\<in>set goals.
        environment u = key_environment p \<and> uniqueName u = key_uniqueName p \<and> state u = success)"
  by (simp add: preconditionsAreMet_def list_all_iff list_ex_iff)

lemma expectToBeFulfilledAfterRequest_iff:
  "expectToBeFulfilledAfterRequest g nm \<longleftrightarrow>
     \<not> (fulfillment_method (fulfillment g) = SideEffect \<and> fulfillment_name (fulfillment g) = nm)"
  by (simp add: expectToBeFulfilledAfterRequest_def split: SdmGoalFulfillmentMethod.splits)

lemma goalsToRequest_filter:
  "goalsToRequest nm u goals =
     filter (\<lambda>g. (\<exists>p\<in>set (preConditions g). key_environment p = environment u \<and> key_uniqueName p = uniqueName u)
          \<and> (state g = planned \<or> state g = skipped \<or> (state g = failure \<and> retryFeasible g = Some True))
          \<and> (\<forall>p\<in>set (preConditions g). \<exists>v\<in>set goals.
                environment v = key_environment p \<and> uniqueName v = key_uniqueName p \<and> state v = success)
          \<and> \<not> (fulfillment_method (fulfillment g) = SideEffect \<and> fulfillment_name (fulfillment g) = nm))
       goals"
  unfolding goalsToRequest_def filter_filter
  by (rule filter_cong[OF refl])
     (auto simp: isDirectlyDependentOn_iff shouldBePlannedOrSkipped_iff preconditionsAreMet_iff
        expectToBeFulfilledAfterRequest_iff)

lemma requestGoal_cases:
  "\<exists>d. requestGoal im g =
     (if preApprovalRequired g = Some True then UpdateGoal g (params waiting_for_pre_approval d)
      else UpdateGoal (fold (\<lambda>cb x. cb x) (findFulfillmentCallbackForGoal im g) g)
             ((params requested d)\<lparr> upd_data :=
                data (fold (\<lambda>cb x. cb x) (findFulfillmentCallbackForGoal im g) g) \<rparr>))"
  by (cases "preApprovalRequired g = Some True") (auto simp: requestGoal_def Let_def)

lemma verifyGoal_cases:
  "verifyGoal c goal gsc = (Inr (), []) \<or> (\<exists>e r. verifyGoal c goal gsc = (Inl e, rejectGoal r goal))"
  by (auto simp: verifyGoal_def split: option.splits)

text \<open>
  Claim C1, as the code has it. For a succeeded goal that is relevant to this SDM and
  passes signature verification, the handler writes one update for exactly those goals
  of the set that list the succeeded goal among their preConditions (by environment and
  uniqueName), are in state planned, skipped, or failure with retryFeasible set, have
  every precondition matched by a goal in state success in the set, and are not fulfilled
  as a side effect registered under this SDM's own name. The update is to
  waiting_for_pre_approval if the goal declares preApprovalRequired; otherwise it is the
  update to requested of the goal that the fulfillment-callback chain returns, with the
  data of that goal.
\<close>

theorem downstream_goals_requested:
  assumes "rd_isGoalRelevant h sdmGoal"
    and "verifyGoal (rd_crypto h) sdmGoal (rd_goalSigning h) = (Inr (), [])"
  shows "handle_success h sdmGoal =
     (Inr Success,
      map (requestGoal (rd_implementationMapper h))
        (filter (\<lambda>g.
            (\<exists>p\<in>set (preConditions g). key_environment p = environment sdmGoal
                 \<and> key_uniqueName p = uniqueName sdmGoal)
          \<and> (state g = planned \<or> state g = skipped
                 \<or> (state g = failure \<and> retryFeasible g = Some True))
          \<and> (\<forall>p\<in>set (preConditions g). \<exists>v\<in>set (rd_fetchGoalsFromPush h sdmGoal).
                environment v = key_environment p \<and> uniqueName v = key_uniqueName p
                 \<and> state v = success)
          \<and> \<not> (fulfillment_method (fulfillment g) = SideEffect
                 \<and> fulfillment_name (fulfillment g) = rd_name h))
          (rd_fetchGoalsFromPush h sdmGoal)))
   \<and> (\<forall>g. \<exists>d. requestGoal (rd_implementationMapper h) g =
         (if preApprovalRequired g = Some True
          then UpdateGoal g (params waiting_for_pre_approval d)
          else UpdateGoal
                 (fold (\<lambda>cb x. cb x) (findFulfillmentCallbackForGoal (rd_implementationMapper h) g) g)
                 ((params requested d)\<lparr> upd_data := data
                    (fold (\<lambda>cb x. cb x) (findFulfillmentCallbackForGoal (rd_implementationMapper h) g) g) \<rparr>)))"
proof -
  have "handle_success h sdmGoal =
     (Inr Success, map (requestGoal (rd_implementationMapper h))
        (goalsToRequest (rd_name h) sdmGoal (rd_fetchGoalsFromPush h sdmGoal)))"
    using assms by (simp add: handle_success_def Let_def)
  then show ?thesis
    using requestGoal_cases by (simp only: goalsToRequest_filter) blast
qed

theorem downstream_goals_requested_witness:
  "rd_isGoalRelevant example_handler_sdm example_upstream
   \<and> handle_success example_handler_sdm example_upstream =
       (Inr Success,
        [UpdateGoal (example_dependent\<lparr> fulfillment := fulfillment example_goal \<rparr>)
           ((params requested ''Ready: deploy'')\<lparr> upd_data := None \<rparr>)])"
proof -
  have r: "rd_isGoalRelevant example_handler_sdm example_upstream"
    by (simp add: example_handler_sdm_def example_handler_def)
  have v: "verifyGoal (rd_crypto example_handler_sdm) example_upstream (rd_goalSigning example_handler_sdm)
      = (Inr (), [])"
    by (simp add: example_handler_sdm_def example_handler_def verifyGoal_def)
  from downstream_goals_requested[OF r v, THEN conjunct1] r show ?thesis
    by (simp add: example_handler_sdm_def example_handler_def example_upstream_def
        example_dependent_def example_goal_def example_mapper_def requestGoal_def)
qed

text \<open>
  The claim as stated, without the condition on the fulfillment, fails: \<open>deploy\<close> depends
  on the succeeded \<open>build\<close>, is planned and has its only precondition in state success,
  and the handler writes no update for it.
\<close>

theorem own_side_effect_goal_not_advanced:
  "isDirectlyDependentOn (goalKey example_upstream) example_dependent
   \<and> shouldBePlannedOrSkipped example_dependent
   \<and> preconditionsAreMet example_dependent [example_upstream, example_dependent]
   \<and> handle_success example_handler example_upstream = (Inr Success, [])"
  by (simp add: handle_success_def goalsToRequest_def isDirectlyDependentOn_def mapKeyToGoal_def
      shouldBePlannedOrSkipped_def preconditionsAreMet_def expectToBeFulfilledAfterRequest_def
      goalKey_def verifyGoal_def example_handler_def example_upstream_def example_dependent_def
      example_goal_def)

text \<open>
  Claim C10: a goal whose fulfillment method is SideEffect and whose fulfillment name is
  this SDM's own registration name is not among the goals to request, whatever the
  states of its preconditions, and every update to requested or waiting_for_pre_approval
  that the handler writes is the request of another goal.
\<close>

theorem own_side_effect_excluded:
  assumes "fulfillment_method (fulfillment g) = SideEffect"
    and "fulfillment_name (fulfillment g) = rd_name h"
  shows "g \<notin> set (goalsToRequest (rd_name h) sdmGoal (rd_fetchGoalsFromPush h sdmGoal))
   \<and> (\<forall>e\<in>set (snd (handle_success h sdmGoal)).
        written_state e = Some requested \<or> written_state e = Some waiting_for_pre_approval \<longrightarrow>
        (\<exists>d\<in>set (goalsToRequest (rd_name h) sdmGoal (rd_fetchGoalsFromPush h sdmGoal)).
            e = requestGoal (rd_implementationMapper h) d \<and> d \<noteq> g))"
proof -
  have out: "g \<notin> set (goalsToRequest (rd_name h) sdmGoal (rd_fetchGoalsFromPush h sdmGoal))"
    using assms by (simp add: goalsToRequest_filter)
  have "snd (handle_success h sdmGoal) = []
      \<or> (\<exists>r. snd (handle_success h sdmGoal) = rejectGoal r sdmGoal)
      \<or> snd (handle_success h sdmGoal) = map (requestGoal (rd_implementationMapper h))
            (goalsToRequest (rd_name h) sdmGoal (rd_fetchGoalsFromPush h sdmGoal))"
    using verifyGoal_cases[of "rd_crypto h" sdmGoal "rd_goalSigning h"]
    by (auto simp: handle_success_def Let_def)
  then show ?thesis
    using out by (auto simp: rejectGoal_def params_def)
qed

theorem own_side_effect_excluded_witness:
  "fulfillment_method (fulfillment example_dependent) = SideEffect
   \<and> fulfillment_name (fulfillment example_dependent) = rd_name example_handler
   \<and> example_dependent \<in> set (rd_fetchGoalsFromPush example_handler example_upstream)
   \<and> example_dependent \<notin> set (goalsToRequest (rd_name example_handler) example_upstream
         (rd_fetchGoalsFromPush example_handler example_upstream))"
proof -
  have a: "fulfillment_method (fulfillment example_dependent) = SideEffect"
    by (simp add: example_dependent_def)
  have b: "fulfillment_name (fulfillment example_dependent) = rd_name example_handler"
    by (simp add: example_dependent_def example_handler_def)
  have c: "example_dependent \<in> set (rd_fetchGoalsFromPush example_handler example_upstream)"
    by (simp add: example_handler_def)
  from own_side_effect_excluded[OF a b, of example_upstream] a b c show ?thesis by blast
qed


section \<open>The fulfillment dispatcher\<close>

lemma handle_requested_executed:
  assumes "admitted env cfg g" and "executed_here cfg g" and "goalInvocation env im g = Inr gi"
  shows "handle_requested env cfg im g =
     (case findGoalScheduler gi cfg of
        Some goalScheduler \<Rightarrow> handle_scheduled env goalScheduler gi
      | None \<Rightarrow> handle_in_process env gi)"
  using assms
  by (auto simp: handle_requested_def admitted_def executed_here_def split: option.splits)

lemma goalInvocation_sdmGoal: "goalInvocation env im g = Inr gi \<Longrightarrow> gi_sdmGoal gi = g"
  by (auto simp: goalInvocation_def split: sum.splits if_splits)

lemma closes_last_report: "closes_last (xs @ reportEndAndClose env r)"
  by (simp add: closes_last_def reportEndAndClose_def)

lemma error_message_set_message: "error_message (set_message e m) = m"
  by (cases e) simp_all

lemma handle_in_process_throws:
  "executeGoal env gi = (Inl e, ee) \<Longrightarrow>
   handle_in_process env gi =
     (Inl (set_message e (''Goal executor threw exception: '' @ error_message e)),
      reportStart env (gi_sdmGoal gi) @ ee @ reportEndAndClose env (Some (captured e)))"
  by (simp add: handle_in_process_def captured_def Let_def error_message_set_message)

lemma handle_in_process_returns:
  "executeGoal env gi = (Inr r, ee) \<Longrightarrow>
   r = None \<or> egr_state (the r) = None \<or> terminal (the (egr_state (the r))) \<Longrightarrow>
   handle_in_process env gi =
     (Inr \<lparr> hr_code = 0, hr_result = r \<rparr>,
      reportStart env (gi_sdmGoal gi) @ ee @ reportEndAndClose env r)"
  by (auto simp: handle_in_process_def terminal_def terminatingStates_def)

lemma handle_scheduled_fails:
  "schedule s gi = (Inr (Some r), se) \<Longrightarrow> egr_code r \<noteq> None \<Longrightarrow> egr_code r \<noteq> Some 0 \<Longrightarrow>
   handle_scheduled env s gi =
     (Inr \<lparr> hr_code = 0, hr_result = Some r \<rparr>,
      se @ [UpdateGoal (gi_sdmGoal gi) ((params failure ''Failed to schedule goal'')
              \<lparr> upd_url := gi_progressLog_url gi \<rparr>)]
         @ reportEndAndClose env (Some r))"
  by (simp add: handle_scheduled_def Let_def)

text \<open>
  Claim C2: for a requested goal event admitted by the dispatcher, if the fulfillment
  method is SideEffect and the fulfillment's registration is not this SDM, the handler
  returns success and writes nothing; if the method is Other, it writes the goal's
  failure with the description \<open>No fulfillment for <uniqueName>\<close> and returns success.
\<close>

theorem foreign_side_effect_ignored_other_failed:
  assumes "admitted env cfg g"
  shows "(fulfillment_method (fulfillment g) = SideEffect \<and>
          fulfillment_registration (fulfillment g) \<noteq> cfg_name cfg \<longrightarrow>
            handle_requested env cfg im g = (Inr Success, []))
     \<and> (fulfillment_method (fulfillment g) = Other \<longrightarrow>
            handle_requested env cfg im g =
              (Inr Success, [UpdateGoal g (params failure (''No fulfillment for '' @ uniqueName g))]))"
  using assms by (auto simp: handle_requested_def admitted_def)

theorem foreign_side_effect_ignored_other_failed_witness:
  "admitted example_env example_configuration example_dependent
   \<and> handle_requested example_env example_configuration example_mapper
       (example_dependent\<lparr> fulfillment := (fulfillment example_dependent)
          \<lparr> fulfillment_registration := ''other-sdm'' \<rparr> \<rparr>) = (Inr Success, [])
   \<and> handle_requested example_env example_configuration example_mapper
       (example_goal\<lparr> fulfillment := (fulfillment example_goal)\<lparr> fulfillment_method := Other \<rparr> \<rparr>) =
       (Inr Success,
        [UpdateGoal (example_goal\<lparr> fulfillment := (fulfillment example_goal)\<lparr> fulfillment_method := Other \<rparr> \<rparr>)
           (params failure ''No fulfillment for build'')])"
proof -
  have a: "admitted example_env example_configuration x" for x
    by (simp add: admitted_def example_env_def example_configuration_def verifyGoal_def)
  from foreign_side_effect_ignored_other_failed[OF a, of "example_dependent\<lparr> fulfillment :=
          (fulfillment example_dependent)\<lparr> fulfillment_registration := ''other-sdm'' \<rparr> \<rparr>" example_mapper]
  have 1: "handle_requested example_env example_configuration example_mapper
       (example_dependent\<lparr> fulfillment := (fulfillment example_dependent)
          \<lparr> fulfillment_registration := ''other-sdm'' \<rparr> \<rparr>) = (Inr Success, [])"
    by (simp add: example_dependent_def example_configuration_def)
  from foreign_side_effect_ignored_other_failed[OF a, of "example_goal\<lparr> fulfillment :=
          (fulfillment example_goal)\<lparr> fulfillment_method := Other \<rparr> \<rparr>" example_mapper]
  have 2: "handle_requested example_env example_configuration example_mapper
       (example_goal\<lparr> fulfillment := (fulfillment example_goal)\<lparr> fulfillment_method := Other \<rparr> \<rparr>) =
       (Inr Success,
        [UpdateGoal (example_goal\<lparr> fulfillment := (fulfillment example_goal)\<lparr> fulfillment_method := Other \<rparr> \<rparr>)
           (params failure ''No fulfillment for build'')])"
    by (simp add: example_goal_def)
  from a 1 2 show ?thesis by blast
qed

text \<open>
  Claim C7, as the code has it: when the goal is executed in this process and
  \<open>executeGoal\<close> throws, the handler prefixes the error's message with
  \<open>Goal executor threw exception: \<close>, captures the result
  \<open>{code: 1, message: e.message, state: failure}\<close>, reports it to the progress log, closes
  the log, and rethrows the error: the handler does not return success.
\<close>

theorem executor_error_reported_and_rethrown:
  assumes "admitted env cfg g" and "executed_here cfg g" and "goalInvocation env im g = Inr gi"
    and "findGoalScheduler gi cfg = None" and "executeGoal env gi = (Inl e, ee)"
  shows "handle_requested env cfg im g =
     (Inl (set_message e (''Goal executor threw exception: '' @ error_message e)),
      reportStart env g @ ee @ reportEndAndClose env (Some (captured e)))
   \<and> egr_code (captured e) = Some 1 \<and> egr_state (captured e) = Some failure
   \<and> egr_message (captured e) = Some (''Goal executor threw exception: '' @ error_message e)"
  using handle_requested_executed[OF assms(1-3)] handle_in_process_throws[OF assms(5)]
    goalInvocation_sdmGoal[OF assms(3)] assms(4)
  by (simp add: captured_def)

theorem executor_error_reported_and_rethrown_witness:
  "admitted example_env example_configuration example_goal
   \<and> executed_here example_configuration example_goal
   \<and> executeGoal example_env example_invocation = (Inl (Error ''boom''), [])
   \<and> handle_requested example_env example_configuration example_mapper example_goal =
       (Inl (Error ''Goal executor threw exception: boom''),
        reportStart example_env example_goal
          @ reportEndAndClose example_env (Some (captured (Error ''boom''))))"
proof -
  have a: "admitted example_env example_configuration example_goal"
    by (simp add: admitted_def example_env_def example_configuration_def verifyGoal_def)
  have b: "executed_here example_configuration example_goal"
    by (simp add: executed_here_def example_goal_def)
  have c: "goalInvocation example_env example_mapper example_goal = Inr example_invocation"
    by (simp add: goalInvocation_def example_invocation_def example_env_def example_goal_def truthy_def)
  have d: "findGoalScheduler example_invocation example_configuration = None"
    by (simp add: findGoalScheduler_def example_configuration_def)
  have e: "executeGoal example_env example_invocation = (Inl (Error ''boom''), [])"
    by (simp add: example_env_def)
  from executor_error_reported_and_rethrown[OF a b c d e] a b e show ?thesis by simp
qed

text \<open>
  The claim as stated fails: the executor throws and the handler's promise is rejected
  with the error instead of resolving to success.
\<close>

theorem executor_error_not_success:
  "executeGoal example_env example_invocation = (Inl (Error ''boom''), [])
   \<and> fst (handle_requested example_env example_configuration example_mapper example_goal) =
       Inl (Error ''Goal executor threw exception: boom'')"
  by (simp add: handle_requested_def handle_in_process_def goalInvocation_def findGoalScheduler_def
      verifyGoal_def truthy_def example_env_def example_configuration_def example_goal_def
      example_invocation_def example_mapper_def)

text \<open>
  Claim C8, as the code has it. On each of the exit paths of a dispatched goal named by
  the claim, the progress log is closed and the close is the last effect of the handler:
  when the executor throws; when the executor returns a result without a state or with a
  terminal state, after the effects of the executor; and when a scheduler returns a
  non-zero code, after the update that writes the goal's failure.
\<close>

theorem progress_log_closed_last:
  assumes "admitted env cfg g" and "executed_here cfg g" and "goalInvocation env im g = Inr gi"
  shows "(findGoalScheduler gi cfg = None \<longrightarrow>
            (\<forall>e ee. executeGoal env gi = (Inl e, ee) \<longrightarrow>
               snd (handle_requested env cfg im g) =
                 reportStart env g @ ee @ reportEndAndClose env (Some (captured e)))
          \<and> (\<forall>r ee. executeGoal env gi = (Inr r, ee) \<and>
                 (r = None \<or> egr_state (the r) = None \<or> terminal (the (egr_state (the r)))) \<longrightarrow>
               snd (handle_requested env cfg im g) =
                 reportStart env g @ ee @ reportEndAndClose env r))
     \<and> (\<forall>s r se. findGoalScheduler gi cfg = Some s \<and> schedule s gi = (Inr (Some r), se)
            \<and> egr_code r \<noteq> None \<and> egr_code r \<noteq> Some 0 \<longrightarrow>
          snd (handle_requested env cfg im g) =
            se @ [UpdateGoal g ((params failure ''Failed to schedule goal'')
                    \<lparr> upd_url := gi_progressLog_url gi \<rparr>)]
               @ reportEndAndClose env (Some r))
     \<and> (\<forall>xs r. closes_last (xs @ reportEndAndClose env r))"
proof -
  note h = handle_requested_executed[OF assms] goalInvocation_sdmGoal[OF assms(3)]
  have 1: "snd (handle_requested env cfg im g) =
      reportStart env g @ ee @ reportEndAndClose env (Some (captured e))"
    if "findGoalScheduler gi cfg = None" "executeGoal env gi = (Inl e, ee)" for e ee
    using h that(1) handle_in_process_throws[OF that(2)] by simp
  have 2: "snd (handle_requested env cfg im g) = reportStart env g @ ee @ reportEndAndClose env r"
    if "findGoalScheduler gi cfg = None" "executeGoal env gi = (Inr r, ee)"
       "r = None \<or> egr_state (the r) = None \<or> terminal (the (egr_state (the r)))" for r ee
    using h that(1) handle_in_process_returns[OF that(2,3)] by simp
  have 3: "snd (handle_requested env cfg im g) =
            se @ [UpdateGoal g ((params failure ''Failed to schedule goal'')
                    \<lparr> upd_url := gi_progressLog_url gi \<rparr>)]
               @ reportEndAndClose env (Some r)"
    if "findGoalScheduler gi cfg = Some s" "schedule s gi = (Inr (Some r), se)"
       "egr_code r \<noteq> None" "egr_code r \<noteq> Some 0" for s r se
    using h that(1) handle_scheduled_fails[OF that(2,3,4)] by simp
  from 1 2 3 closes_last_report show ?thesis by blast
qed

theorem progress_log_closed_last_witness:
  "admitted example_env example_configuration_scheduled example_goal
   \<and> executed_here example_configuration_scheduled example_goal
   \<and> snd (handle_requested example_env example_configuration_scheduled example_mapper example_goal) =
       [UpdateGoal example_goal ((params failure ''Failed to schedule goal'')
           \<lparr> upd_url := Some ''https://log'' \<rparr>)]
       @ reportEndAndClose example_env (Some failed_to_schedule)
   \<and> closes_last (snd (handle_requested example_env example_configuration_scheduled
        example_mapper example_goal))"
proof -
  have a: "admitted example_env example_configuration_scheduled example_goal"
    by (simp add: admitted_def example_env_def example_configuration_scheduled_def
        example_configuration_def verifyGoal_def)
  have b: "executed_here example_configuration_scheduled example_goal"
    by (simp add: executed_here_def example_goal_def)
  have c: "goalInvocation example_env example_mapper example_goal = Inr example_invocation"
    by (simp add: goalInvocation_def example_invocation_def example_env_def example_goal_def truthy_def)
  have d: "findGoalScheduler example_invocation example_configuration_scheduled = Some example_scheduler"
    by (simp add: findGoalScheduler_def example_configuration_scheduled_def example_scheduler_def)
  have e: "schedule example_scheduler example_invocation = (Inr (Some failed_to_schedule), [])"
    by (simp add: example_scheduler_def)
  have f: "egr_code failed_to_schedule \<noteq> None" "egr_code failed_to_schedule \<noteq> Some 0"
    by (simp_all add: failed_to_schedule_def)
  note t = progress_log_closed_last[OF a b c]
  from t d e f have s: "snd (handle_requested example_env example_configuration_scheduled
        example_mapper example_goal) =
      [] @ [UpdateGoal example_goal ((params failure ''Failed to schedule goal'')
           \<lparr> upd_url := gi_progressLog_url example_invocation \<rparr>)]
       @ reportEndAndClose example_env (Some failed_to_schedule)"
    by blast
  from t have cl: "\<forall>xs r. closes_last (xs @ reportEndAndClose example_env r)" by blast
  have u: "gi_progressLog_url example_invocation = Some ''https://log''"
    by (simp add: example_invocation_def)
  from s u have s': "snd (handle_requested example_env example_configuration_scheduled
        example_mapper example_goal) =
      [UpdateGoal example_goal ((params failure ''Failed to schedule goal'')
           \<lparr> upd_url := Some ''https://log'' \<rparr>)]
       @ reportEndAndClose example_env (Some failed_to_schedule)"
    by simp
  from cl have "closes_last ([UpdateGoal example_goal ((params failure ''Failed to schedule goal'')
           \<lparr> upd_url := Some ''https://log'' \<rparr>)]
       @ reportEndAndClose example_env (Some failed_to_schedule))" by blast
  with s' a b show ?thesis by simp
qed

text \<open>
  The claim as stated fails on scheduler failure: the goal's failure is written first and
  the progress log is closed after it.
\<close>

theorem scheduler_failure_published_before_close:
  "snd (handle_requested example_env example_configuration_scheduled example_mapper example_goal) =
     [UpdateGoal example_goal ((params failure ''Failed to schedule goal'')
         \<lparr> upd_url := Some ''https://log'' \<rparr>),
      ProgressWrite ''/--'',
      ProgressWrite ''Result: result'',
      ProgressWrite ''Duration: 1s'',
      ProgressWrite ''Finish: t1'',
      ProgressWrite (CHR 0x5C # ''--''),
      ProgressClose]"
  by (simp add: handle_requested_def handle_scheduled_def goalInvocation_def findGoalScheduler_def
      reportEndAndClose_def verifyGoal_def truthy_def example_env_def
      example_configuration_scheduled_def example_configuration_def example_scheduler_def
      failed_to_schedule_def example_goal_def example_mapper_def)


section \<open>Cancellation and external status\<close>

lemma terminal_iff: "terminal s \<longleftrightarrow> s \<in> set [success, canceled, stopped, skipped, failure]"
  by (auto simp: terminal_def)

text \<open>
  Claim C6: cancelling a goal set that the store returns writes, in the order of the
  set's goals, one update to state canceled for every goal whose state is not terminal,
  and no update for a goal in a terminal state; what follows the updates (the goal-set
  event and the response) is no goal-state change.
\<close>

theorem cancel_goal_set_updates:
  assumes "query_SdmGoalSetForId env gsid = Some (gs # rest)"
  shows "\<exists>tl. cancelGoalSet env gsid =
       (Inr (),
        map (\<lambda>goal. UpdateGoal goal (params canceled (''Canceled '' @ name goal)))
          (filter (\<lambda>goal. \<not> terminal (state goal))
             (fetchGoalsForCommit env (gs_repo gs) (gs_sha gs) (gs_branch gs) gsid)) @ tl)
     \<and> (\<forall>e\<in>set tl. \<not> is_update e)"
proof -
  let ?tl = "(if rest = [] then [SendGoalSet (gs \<lparr> gs_state := canceled \<rparr>)] else [])
       @ [Respond (''Canceled goal set '' @ italic (gs_goalSet gs) @ '' ''
            @ codeLine (take 7 gsid) @ '' on '' @ codeLine (take 7 (gs_sha gs))
            @ '' of '' @ bold (repo_owner (gs_repo gs) @ ''/''
            @ repo_name (gs_repo gs) @ ''/'' @ gs_branch gs))]"
  have "cancelGoalSet env gsid =
       (Inr (),
        map (\<lambda>goal. UpdateGoal goal (params canceled (''Canceled '' @ name goal)))
          (filter (\<lambda>goal. \<not> terminal (state goal))
             (fetchGoalsForCommit env (gs_repo gs) (gs_sha gs) (gs_branch gs) gsid)) @ ?tl)"
    using assms by (simp add: cancelGoalSet_def Let_def terminal_iff)
  moreover have "\<forall>e\<in>set ?tl. \<not> is_update e" by simp
  ultimately show ?thesis by blast
qed

theorem cancel_goal_set_updates_witness:
  "query_SdmGoalSetForId example_cancel_env ''gs1'' = Some (example_goal_set # [])
   \<and> (\<exists>tl. cancelGoalSet example_cancel_env ''gs1'' =
         (Inr (), [UpdateGoal example_dependent (params canceled ''Canceled deploy'')] @ tl)
        \<and> (\<forall>e\<in>set tl. \<not> is_update e))"
proof -
  have q: "query_SdmGoalSetForId example_cancel_env ''gs1'' = Some (example_goal_set # [])"
    by (simp add: example_cancel_env_def)
  have f: "map (\<lambda>goal. UpdateGoal goal (params canceled (''Canceled '' @ name goal)))
          (filter (\<lambda>goal. \<not> terminal (state goal))
             (fetchGoalsForCommit example_cancel_env (gs_repo example_goal_set)
                (gs_sha example_goal_set) (gs_branch example_goal_set) ''gs1''))
        = [UpdateGoal example_dependent (params canceled ''Canceled deploy'')]"
    by (simp add: example_cancel_env_def terminal_def example_upstream_def example_dependent_def
        example_goal_def)
  from cancel_goal_set_updates[OF q] f q show ?thesis by simp
qed

lemma publishes_success_iff:
  "publishes_success (setGitHubStatusOnGoalCompletion sdm gci) \<longleftrightarrow>
     state (completedGoal gci) \<noteq> failure \<and> allSuccessful (allGoals gci)"
  by (simp add: publishes_success_def setGitHubStatusOnGoalCompletion_def)

lemma allSuccessful_iff: "allSuccessful goals \<longleftrightarrow> (\<forall>g\<in>set goals. state g = success)"
  by (simp add: allSuccessful_def list_ex_iff)

text \<open>
  Claim C9, as the code has it: the reactor publishes a failure status whose target URL
  is the completed goal's URL whenever the completed goal's state is failure; it
  publishes a success status exactly when the completed goal's state is not failure and
  no goal in the set has a state other than success; and when the completed goal is one
  of the goals of the set, exactly when no goal in the set has a state other than
  success.
\<close>

theorem status_on_goal_completion:
  "(state (completedGoal gci) = failure \<longrightarrow>
      setGitHubStatusOnGoalCompletion sdm gci =
        [CreateStatus \<lparr> status_context = status_context_of sdm,
           status_description = prefix sdm @ '': '' @ template_str (description (completedGoal gci)),
           status_target_url = url (completedGoal gci),
           status_state = ''failure'' \<rparr>])
   \<and> (publishes_success (setGitHubStatusOnGoalCompletion sdm gci) \<longleftrightarrow>
        state (completedGoal gci) \<noteq> failure \<and> \<not> (\<exists>g\<in>set (allGoals gci). state g \<noteq> success))
   \<and> (completedGoal gci \<in> set (allGoals gci) \<longrightarrow>
        (publishes_success (setGitHubStatusOnGoalCompletion sdm gci) \<longleftrightarrow>
           \<not> (\<exists>g\<in>set (allGoals gci). state g \<noteq> success)))"
proof -
  have f: "state (completedGoal gci) = failure \<longrightarrow>
            setGitHubStatusOnGoalCompletion sdm gci =
              [CreateStatus \<lparr> status_context = status_context_of sdm,
                 status_description = prefix sdm @ '': '' @ template_str (description (completedGoal gci)),
                 status_target_url = url (completedGoal gci),
                 status_state = ''failure'' \<rparr>]"
    by (simp add: setGitHubStatusOnGoalCompletion_def)
  have s: "publishes_success (setGitHubStatusOnGoalCompletion sdm gci) \<longleftrightarrow>
        state (completedGoal gci) \<noteq> failure \<and> \<not> (\<exists>g\<in>set (allGoals gci). state g \<noteq> success)"
    by (simp add: publishes_success_iff allSuccessful_iff)
  have nf: "state (completedGoal gci) \<noteq> failure"
    if "completedGoal gci \<in> set (allGoals gci)" "\<not> (\<exists>g\<in>set (allGoals gci). state g \<noteq> success)"
    using that by auto
  from s nf have m: "completedGoal gci \<in> set (allGoals gci) \<longrightarrow>
        (publishes_success (setGitHubStatusOnGoalCompletion sdm gci) \<longleftrightarrow>
           \<not> (\<exists>g\<in>set (allGoals gci). state g \<noteq> success))"
    by blast
  from f s m show ?thesis by blast
qed

theorem status_on_goal_completion_witness:
  "example_failed \<in> set [example_upstream, example_failed]
   \<and> setGitHubStatusOnGoalCompletion example_sdm
        \<lparr> completedGoal = example_failed, allGoals = [example_upstream, example_failed] \<rparr> =
       [CreateStatus \<lparr> status_context = ''sdm/atomist/my-sdm'',
          status_description = ''my-sdm goals: Failed: build'',
          status_target_url = Some ''https://log'',
          status_state = ''failure'' \<rparr>]
   \<and> publishes_success (setGitHubStatusOnGoalCompletion example_sdm
        \<lparr> completedGoal = example_upstream, allGoals = [example_upstream] \<rparr>)"
proof -
  note t1 = status_on_goal_completion[of
      "\<lparr> completedGoal = example_failed, allGoals = [example_upstream, example_failed] \<rparr>" example_sdm]
  note t2 = status_on_goal_completion[of
      "\<lparr> completedGoal = example_upstream, allGoals = [example_upstream] \<rparr>" example_sdm]
  from t1
  have 1: "setGitHubStatusOnGoalCompletion example_sdm
        \<lparr> completedGoal = example_failed, allGoals = [example_upstream, example_failed] \<rparr> =
       [CreateStatus \<lparr> status_context = ''sdm/atomist/my-sdm'',
          status_description = ''my-sdm goals: Failed: build'',
          status_target_url = Some ''https://log'',
          status_state = ''failure'' \<rparr>]"
    by (simp add: example_failed_def example_goal_def example_sdm_def status_context_of_def
        prefix_def truthy_def template_str_def)
  from t2
  have 2: "publishes_success (setGitHubStatusOnGoalCompletion example_sdm
        \<lparr> completedGoal = example_upstream, allGoals = [example_upstream] \<rparr>)"
    by (simp add: example_upstream_def example_goal_def)
  from 1 2 show ?thesis by simp
qed

text \<open>
  The claim as stated fails when the completed goal of the event has failed and the set
  as fetched holds only succeeded goals: no goal in the set has a state other than
  success, and the reactor publishes the failure status and no success status.
\<close>

theorem failed_completed_goal_masks_success:
  "allSuccessful [example_upstream]
   \<and> setGitHubStatusOnGoalCompletion example_sdm
        \<lparr> completedGoal = example_failed, allGoals = [example_upstream] \<rparr> =
       [CreateStatus \<lparr> status_context = ''sdm/atomist/my-sdm'',
          status_description = ''my-sdm goals: Failed: build'',
          status_target_url = Some ''https://log'',
          status_state = ''failure'' \<rparr>]
   \<and> \<not> publishes_success (setGitHubStatusOnGoalCompletion example_sdm
        \<lparr> completedGoal = example_failed, allGoals = [example_upstream] \<rparr>)"
  by (simp add: allSuccessful_def setGitHubStatusOnGoalCompletion_def publishes_success_def
      example_upstream_def example_failed_def example_goal_def example_sdm_def
      status_context_of_def prefix_def truthy_def template_str_def)

end
